theory Spec2Isabelle
  imports Complex_Main
begin

section \<open>Real-time depth estimation: frame skipping, flow propagation, temporal filter\<close>

text \<open>
  A shallow embedding of the notebook
  \<^verbatim>\<open>Strategy_for_Real_Time_optimized_depth_estimation.ipynb\<close>:
  the configuration cell, \<^verbatim>\<open>estimate_depth_midas\<close>,
  \<^verbatim>\<open>propagate_depth_optical_flow\<close>, \<^verbatim>\<open>apply_temporal_filter\<close>
  and the body of the capture loop.

  Conventions.
  \<^item> A numpy array or torch tensor is a record of its shape and its elements in
    row-major order. A colour frame of numpy shape \<open>(h, w, 3)\<close> is an array of shape
    \<open>[h, w]\<close> whose elements are (B, G, R) triples, and a flow field of numpy shape
    \<open>(h, w, 2)\<close> is an array of shape \<open>[h, w]\<close> whose elements are pairs.
  \<^item> Array elements that the notebook keeps in 32-bit floating point are real numbers
    here, and arithmetic on them is exact. The temporal filter is given a second time
    with the rounding of float32 arithmetic, \<open>apply_temporal_filter_float32\<close>, for the
    one property below whose truth depends on rounding.
  \<^item> An exception is a value \<open>Inl e\<close>. The body of the capture loop returns, next to its
    result, the values its variables hold at that point, so an exception leaves behind
    exactly the assignments executed before it.
  \<^item> The network, the bicubic resampling kernel, the grayscale conversion, the
    optical-flow solver and the display are library code whose numbers no property
    below depends on; they are parameters, gathered in the record \<open>collaborators\<close>.
\<close>

subsection \<open>Arrays\<close>

record 'a ndarray =
  shape :: "nat list"
  data :: "'a list"

definition well_formed :: "'a ndarray \<Rightarrow> bool" where
  "well_formed a \<longleftrightarrow> length (data a) = prod_list (shape a)"

datatype error =
  ZeroDivisionError
  | ValueError
  | CvError
  | TorchError
  | InferenceFailure

type_synonym pixel = "nat \<times> nat \<times> nat"
type_synonym frame = "pixel ndarray"
type_synonym gray = "nat ndarray"
type_synonym depth = "real ndarray"
type_synonym flow = "(real \<times> real) ndarray"

subsection \<open>Configuration cell\<close>

text \<open>
  \<^verbatim>\<open>FRAME_SKIP = 5\<close> and \<^verbatim>\<open>TEMPORAL_ALPHA = 0.9\<close> are module-level variables
  that the functions read when they run; the functions below take them in a record, and
  \<open>configuration\<close> holds the values of the cell.
\<close>

record config =
  FRAME_SKIP :: int
  TEMPORAL_ALPHA :: real

definition configuration :: config where
  "configuration = \<lparr>FRAME_SKIP = 5, TEMPORAL_ALPHA = 9 / 10\<rparr>"

subsection \<open>numpy arithmetic\<close>

text \<open>
  Broadcasting of two shapes, aligned at their last axis (both lists are given last axis
  first): two extents are compatible when they are equal or one of them is 1, and a
  shape that runs out is padded with 1. Incompatible shapes make numpy raise
  \<^verbatim>\<open>ValueError\<close>.
\<close>

fun broadcast_rev :: "nat list \<Rightarrow> nat list \<Rightarrow> nat list option" where
  "broadcast_rev [] ys = Some ys"
| "broadcast_rev (x # xs) [] = Some (x # xs)"
| "broadcast_rev (x # xs) (y # ys) =
     (if x = y \<or> y = 1 then map_option ((#) x) (broadcast_rev xs ys)
      else if x = 1 then map_option ((#) y) (broadcast_rev xs ys)
      else None)"

definition broadcast_shapes :: "nat list \<Rightarrow> nat list \<Rightarrow> nat list option" where
  "broadcast_shapes s t = map_option rev (broadcast_rev (rev s) (rev t))"

text \<open>
  The row-major position, in an operand of shape \<open>ds\<close>, of the element that lands at
  row-major position \<open>i\<close> of a result of shape \<open>rs\<close> (both shapes last axis first): along
  an axis of extent 1 the operand's only element is repeated.
\<close>

fun source_index :: "nat list \<Rightarrow> nat list \<Rightarrow> nat \<Rightarrow> nat" where
  "source_index (d # ds) (r # rs) i =
     (if d = 1 then 0 else i mod r) + d * source_index ds rs (i div r)"
| "source_index _ _ i = 0"

definition np_binary :: "('a \<Rightarrow> 'b \<Rightarrow> 'c) \<Rightarrow> 'a ndarray \<Rightarrow> 'b ndarray \<Rightarrow> error + 'c ndarray" where
  "np_binary f a b =
     (case broadcast_shapes (shape a) (shape b) of
        None \<Rightarrow> Inl ValueError
      | Some r \<Rightarrow>
          Inr \<lparr>shape = r,
               data = map (\<lambda>i. f (data a ! source_index (rev (shape a)) (rev r) i)
                                  (data b ! source_index (rev (shape b)) (rev r) i))
                          [0..<prod_list r]\<rparr>)"

text \<open>A Python float times an array: every element is multiplied.\<close>

definition np_scale :: "real \<Rightarrow> real ndarray \<Rightarrow> real ndarray" where
  "np_scale k a = \<lparr>shape = shape a, data = map (\<lambda>v. k * v) (data a)\<rparr>"

text \<open>\<^verbatim>\<open>np.arange(n)\<close>\<close>

definition arange :: "nat \<Rightarrow> nat ndarray" where
  "arange n = \<lparr>shape = [n], data = [0..<n]\<rparr>"

text \<open>
  \<^verbatim>\<open>np.meshgrid(xs, ys, indexing='xy')\<close> for one-dimensional \<open>xs\<close> and \<open>ys\<close>: two arrays
  of shape \<open>(len(ys), len(xs))\<close>, the first holding \<open>xs[x]\<close> and the second \<open>ys[y]\<close> at
  row \<open>y\<close>, column \<open>x\<close>.
\<close>

definition meshgrid_xy :: "'a ndarray \<Rightarrow> 'a ndarray \<Rightarrow> 'a ndarray \<times> 'a ndarray" where
  "meshgrid_xy xs ys =
     (let w = length (data xs); h = length (data ys)
      in (\<lparr>shape = [h, w], data = map (\<lambda>i. data xs ! (i mod w)) [0..<h * w]\<rparr>,
          \<lparr>shape = [h, w], data = map (\<lambda>i. data ys ! (i div w)) [0..<h * w]\<rparr>))"

text \<open>\<^verbatim>\<open>flow[..., 0]\<close> is \<open>component fst\<close>, \<^verbatim>\<open>flow[..., 1]\<close> is \<open>component snd\<close>.\<close>

definition component :: "('a \<times> 'a \<Rightarrow> 'a) \<Rightarrow> ('a \<times> 'a) ndarray \<Rightarrow> 'a ndarray" where
  "component sel a = \<lparr>shape = shape a, data = map sel (data a)\<rparr>"

subsection \<open>OpenCV calls\<close>

text \<open>
  \<^verbatim>\<open>cv2.cvtColor(src, code)\<close> maps every pixel and keeps the height and width; it
  rejects an empty image. The conversion of one pixel is the argument \<open>code\<close>.
\<close>

definition cvtColor :: "(pixel \<Rightarrow> 'a) \<Rightarrow> frame \<Rightarrow> error + 'a ndarray" where
  "cvtColor code src =
     (case shape src of
        [h, w] \<Rightarrow>
          if h = 0 \<or> w = 0 then Inl CvError
          else Inr \<lparr>shape = [h, w], data = map code (data src)\<rparr>
      | _ \<Rightarrow> Inl CvError)"

definition COLOR_BGR2RGB :: "pixel \<Rightarrow> pixel" where
  "COLOR_BGR2RGB p = (case p of (b, g, r) \<Rightarrow> (r, g, b))"

text \<open>
  Modelled from the spec: \<^verbatim>\<open>cv2.calcOpticalFlowFarneback\<close> is an OpenCV routine, not
  code of the notebook. Its contract is taken from the specification of the Flow Field
  Estimator: two grayscale frames of identical dimensions give a flow field of the same
  dimensions, and inputs that differ in dimensions are rejected with an error before
  any flow is computed. The displacement at row \<open>y\<close>, column \<open>x\<close> is the parameter
  \<open>solver\<close>.
\<close>

definition calcOpticalFlowFarneback ::
  "(gray \<Rightarrow> gray \<Rightarrow> nat \<Rightarrow> nat \<Rightarrow> real \<times> real) \<Rightarrow> gray \<Rightarrow> gray \<Rightarrow> error + flow" where
  "calcOpticalFlowFarneback solver prev next =
     (case shape prev of
        [h, w] \<Rightarrow>
          if shape next \<noteq> [h, w] \<or> h = 0 \<or> w = 0 then Inl CvError
          else Inr \<lparr>shape = [h, w],
                    data = map (\<lambda>i. solver prev next (i div w) (i mod w)) [0..<h * w]\<rparr>
      | _ \<Rightarrow> Inl CvError)"

text \<open>
  Modelled from the spec: \<^verbatim>\<open>cv2.remap\<close> with \<^verbatim>\<open>interpolation=cv2.INTER_LINEAR\<close> and
  \<^verbatim>\<open>borderMode=cv2.BORDER_REFLECT\<close> is an OpenCV routine, not code of the notebook. Its
  behaviour is taken from the specification of the Depth Propagator: the output has the
  dimensions of the coordinate maps, and output pixel \<open>(x, y)\<close> is the source sampled
  with bilinear interpolation at \<open>(map_x(x, y), map_y(x, y))\<close>, where a row or column
  index outside the source is mirrored back into range. Mirroring is OpenCV's
  \<^verbatim>\<open>BORDER_REFLECT\<close> pattern \<^verbatim>\<open>fedcba|abcdefgh|hgfedcb\<close>, which has period \<open>2 * len\<close>.
  The model covers a two-dimensional source and rejects empty arrays.
\<close>

definition borderInterpolate_reflect :: "int \<Rightarrow> nat \<Rightarrow> nat" where
  "borderInterpolate_reflect p len =
     (let m = p mod (2 * int len)
      in nat (if m < int len then m else 2 * int len - 1 - m))"

text \<open>
  Modelled from the spec: the source pixel at a row and a column that may lie outside
  the source, each mirrored back into range (part of \<^verbatim>\<open>cv2.remap\<close>, see above).
\<close>

definition pixel_at :: "depth \<Rightarrow> nat \<Rightarrow> nat \<Rightarrow> int \<Rightarrow> int \<Rightarrow> real" where
  "pixel_at src rows cols y x =
     data src ! (borderInterpolate_reflect y rows * cols + borderInterpolate_reflect x cols)"

text \<open>
  Modelled from the spec: bilinear interpolation of the source at the real coordinates
  \<open>(u, v)\<close>, column first (part of \<^verbatim>\<open>cv2.remap\<close>, see above).
\<close>

definition bilinear_reflect :: "depth \<Rightarrow> nat \<Rightarrow> nat \<Rightarrow> real \<Rightarrow> real \<Rightarrow> real" where
  "bilinear_reflect src rows cols u v =
     (let x0 = \<lfloor>u\<rfloor>; y0 = \<lfloor>v\<rfloor>; a = u - of_int x0; b = v - of_int y0
      in (1 - a) * (1 - b) * pixel_at src rows cols y0 x0
         + a * (1 - b) * pixel_at src rows cols y0 (x0 + 1)
         + (1 - a) * b * pixel_at src rows cols (y0 + 1) x0
         + a * b * pixel_at src rows cols (y0 + 1) (x0 + 1))"

text \<open>
  Modelled from the spec: \<^verbatim>\<open>cv2.remap(src, map_x, map_y, interpolation=cv2.INTER_LINEAR,
  borderMode=cv2.BORDER_REFLECT)\<close>, see above.
\<close>

definition remap :: "depth \<Rightarrow> real ndarray \<Rightarrow> real ndarray \<Rightarrow> error + depth" where
  "remap src map_x map_y =
     (case shape src of
        [rows, cols] \<Rightarrow>
          (case shape map_x of
             [h, w] \<Rightarrow>
               if shape map_y \<noteq> [h, w] \<or> h = 0 \<or> w = 0 \<or> rows = 0 \<or> cols = 0
               then Inl CvError
               else Inr \<lparr>shape = [h, w],
                         data = map (\<lambda>i. bilinear_reflect src rows cols
                                             (data map_x ! i) (data map_y ! i))
                                    [0..<h * w]\<rparr>
           | _ \<Rightarrow> Inl CvError)
      | _ \<Rightarrow> Inl CvError)"

subsection \<open>torch calls\<close>

text \<open>\<^verbatim>\<open>t.unsqueeze(1)\<close>: a new axis of extent 1 after the first axis.\<close>

definition unsqueeze1 :: "'a ndarray \<Rightarrow> error + 'a ndarray" where
  "unsqueeze1 a =
     (case shape a of
        [] \<Rightarrow> Inl TorchError
      | n # rest \<Rightarrow> Inr \<lparr>shape = n # 1 # rest, data = data a\<rparr>)"

text \<open>
  \<^verbatim>\<open>torch.nn.functional.interpolate(input, size=sz, mode="bicubic", align_corners=False)\<close>
  takes a tensor of shape \<open>(N, C, H, W)\<close> and a size \<open>(h, w)\<close> and returns a tensor of
  shape \<open>(N, C, h, w)\<close>. The value at plane \<open>p\<close>, row \<open>y\<close>, column \<open>x\<close> of the result is
  the parameter \<open>resample\<close>.
\<close>

definition interpolate ::
  "(real ndarray \<Rightarrow> nat \<times> nat \<Rightarrow> nat \<Rightarrow> nat \<Rightarrow> nat \<Rightarrow> real) \<Rightarrow> real ndarray \<Rightarrow> nat list \<Rightarrow>
   error + real ndarray" where
  "interpolate resample input sz =
     (case (shape input, sz) of
        ([n, c, hin, win], [h, w]) \<Rightarrow>
          if hin = 0 \<or> win = 0 \<or> h = 0 \<or> w = 0 then Inl TorchError
          else Inr \<lparr>shape = [n, c, h, w],
                    data = map (\<lambda>i. resample input (h, w)
                                       (i div (h * w)) (i mod (h * w) div w) (i mod w))
                               [0..<n * c * h * w]\<rparr>
      | _ \<Rightarrow> Inl TorchError)"

text \<open>\<^verbatim>\<open>t.squeeze()\<close> without an argument removes every axis of extent 1.\<close>

definition squeeze :: "'a ndarray \<Rightarrow> 'a ndarray" where
  "squeeze a = \<lparr>shape = filter (\<lambda>d. d \<noteq> 1) (shape a), data = data a\<rparr>"

subsection \<open>Collaborators\<close>

text \<open>
  \<^item> \<open>COLOR_BGR2GRAY\<close>: the grayscale value of one pixel.
  \<^item> \<open>midas\<close>: \<^verbatim>\<open>midas(transform(img_rgb).to(DEVICE).unsqueeze(0))\<close>, the prediction
    for an RGB image, or an error.
  \<^item> \<open>bicubic\<close>: the resampling kernel of \<open>interpolate\<close>.
  \<^item> \<open>farneback\<close>: the displacement that the flow solver computes for one pixel.
  \<^item> \<open>display\<close>: the display code of the loop body, \<^verbatim>\<open>cv2.normalize\<close>, \<^verbatim>\<open>np.uint8\<close>,
    \<^verbatim>\<open>cv2.applyColorMap\<close> and \<^verbatim>\<open>cv2.imshow\<close> applied to the filtered depth: \<open>None\<close>
    when it returns, an error when one of the calls raises.
\<close>

record collaborators =
  COLOR_BGR2GRAY :: "pixel \<Rightarrow> nat"
  midas :: "frame \<Rightarrow> error + real ndarray"
  bicubic :: "real ndarray \<Rightarrow> nat \<times> nat \<Rightarrow> nat \<Rightarrow> nat \<Rightarrow> nat \<Rightarrow> real"
  farneback :: "gray \<Rightarrow> gray \<Rightarrow> nat \<Rightarrow> nat \<Rightarrow> real \<times> real"
  display :: "depth \<Rightarrow> error option"

subsection \<open>Depth estimation module\<close>

text \<open>
  \<^verbatim>\<open>
  def estimate_depth_midas(frame):
      img_rgb = cv2.cvtColor(frame, cv2.COLOR_BGR2RGB)
      input_tensor = transform(img_rgb).to(DEVICE).unsqueeze(0)
      with torch.no_grad():
          prediction = midas(input_tensor)
          prediction = torch.nn.functional.interpolate(
              prediction.unsqueeze(1), size=img_rgb.shape[:2],
              mode="bicubic", align_corners=False,
          ).squeeze()
          depth_map = prediction.cpu().numpy()
      return depth_map
  \<close>
  \<^verbatim>\<open>img_rgb.shape\<close> is the shape of the pixel grid followed by the channel count 3.
\<close>

definition estimate_depth_midas :: "collaborators \<Rightarrow> frame \<Rightarrow> error + depth" where
  "estimate_depth_midas cl frame =
     (case cvtColor COLOR_BGR2RGB frame of
        Inl e \<Rightarrow> Inl e
      | Inr img_rgb \<Rightarrow>
          (case midas cl img_rgb of
             Inl e \<Rightarrow> Inl e
           | Inr prediction \<Rightarrow>
               (case unsqueeze1 prediction of
                  Inl e \<Rightarrow> Inl e
                | Inr p4 \<Rightarrow>
                    (case interpolate (bicubic cl) p4 (take 2 (shape img_rgb @ [3])) of
                       Inl e \<Rightarrow> Inl e
                     | Inr resized \<Rightarrow> Inr (squeeze resized)))))"

subsection \<open>Propagation by optical flow\<close>

text \<open>
  The part of \<^verbatim>\<open>propagate_depth_optical_flow\<close> after the flow is known:
  \<^verbatim>\<open>
      h, w = flow.shape[:2]
      flow_map_x, flow_map_y = np.meshgrid(np.arange(w), np.arange(h), indexing='xy')
      remap_x = (flow_map_x + flow[..., 0]).astype(np.float32)
      remap_y = (flow_map_y + flow[..., 1]).astype(np.float32)
      warped_depth = cv2.remap(prev_depth, remap_x, remap_y,
                               interpolation=cv2.INTER_LINEAR, borderMode=cv2.BORDER_REFLECT)
      return warped_depth
  \<close>
\<close>

definition warp_depth :: "flow \<Rightarrow> depth \<Rightarrow> error + depth" where
  "warp_depth flw prev =
     (case shape flw of
        [h, w] \<Rightarrow>
          (case meshgrid_xy (arange w) (arange h) of
             (flow_map_x, flow_map_y) \<Rightarrow>
               (case np_binary (\<lambda>m f. real m + f) flow_map_x (component fst flw) of
                  Inl e \<Rightarrow> Inl e
                | Inr remap_x \<Rightarrow>
                    (case np_binary (\<lambda>m f. real m + f) flow_map_y (component snd flw) of
                       Inl e \<Rightarrow> Inl e
                     | Inr remap_y \<Rightarrow> remap prev remap_x remap_y)))
      | _ \<Rightarrow> Inl ValueError)"

text \<open>
  \<^verbatim>\<open>
  def propagate_depth_optical_flow(prev_gray, curr_gray, prev_depth):
      flow = cv2.calcOpticalFlowFarneback(prev_gray, curr_gray, None, ...)
      ...
  \<close>
\<close>

definition propagate_depth_optical_flow ::
  "collaborators \<Rightarrow> gray \<Rightarrow> gray \<Rightarrow> depth \<Rightarrow> error + depth" where
  "propagate_depth_optical_flow cl pg g pd =
     (case calcOpticalFlowFarneback (farneback cl) pg g of
        Inl e \<Rightarrow> Inl e
      | Inr flw \<Rightarrow> warp_depth flw pd)"

subsection \<open>Temporal filtering\<close>

text \<open>
  \<^verbatim>\<open>
  def apply_temporal_filter(new_depth, prev_filtered):
      return TEMPORAL_ALPHA * prev_filtered + (1 - TEMPORAL_ALPHA) * new_depth
  \<close>
\<close>

definition apply_temporal_filter :: "config \<Rightarrow> depth \<Rightarrow> depth \<Rightarrow> error + depth" where
  "apply_temporal_filter cf new_depth prev_filtered =
     np_binary (+) (np_scale (TEMPORAL_ALPHA cf) prev_filtered)
                   (np_scale (1 - TEMPORAL_ALPHA cf) new_depth)"

subsection \<open>Temporal filtering in float32 arithmetic\<close>

text \<open>
  The depth maps are float32 arrays, so numpy evaluates
  \<^verbatim>\<open>TEMPORAL_ALPHA * prev_filtered + (1 - TEMPORAL_ALPHA) * new_depth\<close> in IEEE 754
  binary32 arithmetic with rounding to nearest, ties to even, after every operation.
  A floating-point number is a real number here; infinities, NaN and overflow to
  infinity are not modelled, so the model agrees with the notebook as long as no
  result reaches \<open>2 ^ 128\<close>.
\<close>

text \<open>Rounding to the nearest integer, a tie going to the even one.\<close>

definition round_half_even :: "real \<Rightarrow> int" where
  "round_half_even x =
     (let f = \<lfloor>x\<rfloor>; d = x - of_int f
      in if d < 1 / 2 then f else if 1 / 2 < d then f + 1 else if even f then f else f + 1)"

text \<open>
  The binary exponent of a magnitude \<open>x\<close>: the greatest \<open>e\<close>, counting down from the
  start, with \<open>2 ^ e \<le> x\<close>, or the exponent reached after \<open>k\<close> steps when there is none
  (the subnormal range).
\<close>

fun exponent_search :: "nat \<Rightarrow> int \<Rightarrow> real \<Rightarrow> int" where
  "exponent_search 0 e x = e"
| "exponent_search (Suc k) e x = (if 2 powi e \<le> x then e else exponent_search k (e - 1) x)"

text \<open>
  The nearest number with \<open>prec\<close> significant bits and an exponent from \<open>emin\<close> to
  \<open>emax\<close>; below \<open>2 ^ emin\<close> the spacing stays that of \<open>2 ^ emin\<close> (gradual underflow).
\<close>

definition round_float :: "nat \<Rightarrow> int \<Rightarrow> int \<Rightarrow> real \<Rightarrow> real" where
  "round_float prec emin emax x =
     (let e = exponent_search (nat (emax - emin)) emax \<bar>x\<bar>;
          q = 2 powi (e - int prec + 1)
      in of_int (round_half_even (x / q)) * q)"

text \<open>binary32, numpy's \<^verbatim>\<open>float32\<close>, and binary64, Python's \<^verbatim>\<open>float\<close>.\<close>

definition float32 :: "real \<Rightarrow> real" where
  "float32 = round_float 24 (- 126) 127"

definition float64 :: "real \<Rightarrow> real" where
  "float64 = round_float 53 (- 1022) 1023"

text \<open>
  A Python float times a float32 array: numpy converts the scalar to float32 and rounds
  every product to float32.
\<close>

definition np_scale_float32 :: "real \<Rightarrow> depth \<Rightarrow> depth" where
  "np_scale_float32 k a =
     \<lparr>shape = shape a, data = map (\<lambda>v. float32 (float32 k * v)) (data a)\<rparr>"

text \<open>
  \<^verbatim>\<open>apply_temporal_filter\<close> as the notebook computes it. \<^verbatim>\<open>TEMPORAL_ALPHA\<close> is a Python
  float, the binary64 number nearest to the literal; \<^verbatim>\<open>1 - TEMPORAL_ALPHA\<close> is computed in
  binary64; the two products and the sum are float32 operations.
\<close>

definition apply_temporal_filter_float32 :: "config \<Rightarrow> depth \<Rightarrow> depth \<Rightarrow> error + depth" where
  "apply_temporal_filter_float32 cf new_depth prev_filtered =
     np_binary (\<lambda>x y. float32 (x + y))
       (np_scale_float32 (float64 (TEMPORAL_ALPHA cf)) prev_filtered)
       (np_scale_float32 (float64 (1 - float64 (TEMPORAL_ALPHA cf))) new_depth)"

subsection \<open>Capture loop\<close>

text \<open>The four variables that the loop carries from one frame to the next.\<close>

record state =
  frame_count :: int
  prev_gray :: "gray option"
  prev_depth :: "depth option"
  filtered_depth :: "depth option"

definition initial_state :: state where
  "initial_state =
     \<lparr>frame_count = 0, prev_gray = None, prev_depth = None, filtered_depth = None\<rparr>"

datatype decision = INFER | PROPAGATE

text \<open>
  \<^verbatim>\<open>if frame_count % FRAME_SKIP == 0 or prev_depth is None:\<close>
  The left operand is evaluated first, so a zero \<^verbatim>\<open>FRAME_SKIP\<close> raises whatever
  \<^verbatim>\<open>prev_depth\<close> is. Python's \<^verbatim>\<open>%\<close> on integers takes the sign of the divisor, as
  \<open>mod\<close> on \<open>int\<close> does.
\<close>

definition schedule :: "config \<Rightarrow> int \<Rightarrow> 'd option \<Rightarrow> error + decision" where
  "schedule cf n pd =
     (if FRAME_SKIP cf = 0 then Inl ZeroDivisionError
      else if n mod FRAME_SKIP cf = 0 \<or> pd = None then Inr INFER
      else Inr PROPAGATE)"

text \<open>
  \<^verbatim>\<open>
      if frame_count % FRAME_SKIP == 0 or prev_depth is None:
          depth_map = estimate_depth_midas(frame)
          prev_depth = depth_map
      else:
          depth_map = propagate_depth_optical_flow(prev_gray, gray, prev_depth)
  \<close>
  The result is \<^verbatim>\<open>depth_map\<close>, with the variables as the branch leaves them. A
  \<^verbatim>\<open>None\<close> handed to OpenCV in the second branch is an error.
\<close>

definition depth_stage ::
  "collaborators \<Rightarrow> config \<Rightarrow> state \<Rightarrow> frame \<Rightarrow> gray \<Rightarrow> (error + depth) \<times> state" where
  "depth_stage cl cf s frame g =
     (case schedule cf (frame_count s) (prev_depth s) of
        Inl e \<Rightarrow> (Inl e, s)
      | Inr INFER \<Rightarrow>
          (case estimate_depth_midas cl frame of
             Inl e \<Rightarrow> (Inl e, s)
           | Inr depth_map \<Rightarrow> (Inr depth_map, s\<lparr>prev_depth := Some depth_map\<rparr>))
      | Inr PROPAGATE \<Rightarrow>
          (case prev_gray s of
             None \<Rightarrow> (Inl CvError, s)
           | Some pg \<Rightarrow>
               (case prev_depth s of
                  None \<Rightarrow> (Inl CvError, s)
                | Some pd \<Rightarrow> (propagate_depth_optical_flow cl pg g pd, s))))"

text \<open>
  \<^verbatim>\<open>
      if filtered_depth is None:
          filtered_depth = depth_map
      else:
          filtered_depth = apply_temporal_filter(depth_map, filtered_depth)
  \<close>
  The result is the new value of \<^verbatim>\<open>filtered_depth\<close>.
\<close>

definition temporal_smoothing :: "config \<Rightarrow> depth \<Rightarrow> depth option \<Rightarrow> error + depth" where
  "temporal_smoothing cf depth_map fd =
     (case fd of
        None \<Rightarrow> Inr depth_map
      | Some f \<Rightarrow> apply_temporal_filter cf depth_map f)"

text \<open>
  One pass through the body of \<^verbatim>\<open>while True:\<close> for a frame that the camera
  delivered: grayscale conversion, the depth branch, the smoothing branch (which
  assigns \<^verbatim>\<open>filtered_depth\<close>), the display of the filtered depth, and
  \<^verbatim>\<open>
      prev_gray = gray
      prev_depth = depth_map
      frame_count += 1
  \<close>
  The result is the filtered depth map, the one the loop displays.
\<close>

definition process_frame ::
  "collaborators \<Rightarrow> config \<Rightarrow> state \<Rightarrow> frame \<Rightarrow> (error + depth) \<times> state" where
  "process_frame cl cf s frame =
     (case cvtColor (COLOR_BGR2GRAY cl) frame of
        Inl e \<Rightarrow> (Inl e, s)
      | Inr g \<Rightarrow>
          (case depth_stage cl cf s frame g of
             (Inl e, s1) \<Rightarrow> (Inl e, s1)
           | (Inr depth_map, s1) \<Rightarrow>
               (case temporal_smoothing cf depth_map (filtered_depth s1) of
                  Inl e \<Rightarrow> (Inl e, s1)
                | Inr f \<Rightarrow>
                    (case display cl f of
                       Some e \<Rightarrow> (Inl e, s1\<lparr>filtered_depth := Some f\<rparr>)
                     | None \<Rightarrow>
                         (Inr f,
                          s1\<lparr>filtered_depth := Some f, prev_gray := Some g,
                             prev_depth := Some depth_map,
                             frame_count := frame_count s1 + 1\<rparr>)))))"

text \<open>
  The loop over the frames that the camera delivers before it stops; an exception ends
  the loop and leaves the variables as they are.
\<close>

fun capture_loop ::
  "collaborators \<Rightarrow> config \<Rightarrow> state \<Rightarrow> frame list \<Rightarrow> error option \<times> state" where
  "capture_loop cl cf s [] = (None, s)"
| "capture_loop cl cf s (frame # frames) =
     (case process_frame cl cf s frame of
        (Inl e, s1) \<Rightarrow> (Some e, s1)
      | (Inr out, s1) \<Rightarrow> capture_loop cl cf s1 frames)"

subsection \<open>Test data\<close>

text \<open>
  Deterministic collaborators for concrete runs: the gray value is the green channel,
  the network answers with a single-pixel map, the resampled value at row \<open>y\<close>,
  column \<open>x\<close> is \<open>10 * y + x\<close>, the scene is static (zero flow), and the display
  never fails.
\<close>

definition stub :: collaborators where
  "stub = \<lparr>COLOR_BGR2GRAY = (\<lambda>p. fst (snd p)),
           midas = (\<lambda>img. Inr \<lparr>shape = [1, 1, 1], data = [0]\<rparr>),
           bicubic = (\<lambda>a sz p y x. 10 * real y + real x),
           farneback = (\<lambda>p n y x. (0, 0)),
           display = (\<lambda>d. None)\<rparr>"

definition frame_2x2 :: frame where
  "frame_2x2 = \<lparr>shape = [2, 2], data = [(1, 1, 1), (2, 2, 2), (3, 3, 3), (4, 4, 4)]\<rparr>"

definition frame_1x2 :: frame where
  "frame_1x2 = \<lparr>shape = [1, 2], data = [(1, 1, 1), (2, 2, 2)]\<rparr>"

definition frame_3x3 :: frame where
  "frame_3x3 = \<lparr>shape = [3, 3], data = replicate 9 (5, 5, 5)\<rparr>"

definition gray_2x2 :: gray where
  "gray_2x2 = \<lparr>shape = [2, 2], data = [1, 2, 3, 4]\<rparr>"

definition depth_2x2 :: depth where
  "depth_2x2 = \<lparr>shape = [2, 2], data = [0, 1, 10, 11]\<rparr>"


text \<open>A depth map with the single value 3.\<close>

definition depth_three :: depth where
  "depth_three = \<lparr>shape = [1, 1], data = [3]\<rparr>"

definition depth_3x3 :: depth where
  "depth_3x3 = \<lparr>shape = [3, 3], data = [0, 1, 2, 10, 11, 12, 20, 21, 22]\<rparr>"

definition gray_3x3 :: gray where
  "gray_3x3 = \<lparr>shape = [3, 3], data = replicate 9 5\<rparr>"

definition zero_flow_2x2 :: flow where
  "zero_flow_2x2 = \<lparr>shape = [2, 2], data = replicate 4 (0, 0)\<rparr>"

text \<open>Collaborators for a camera that pans: every pixel moves by 2.5 columns.\<close>

definition panning :: collaborators where
  "panning = stub\<lparr>farneback := (\<lambda>p n y x. (5 / 2, 0))\<rparr>"

text \<open>The variables after one frame \<open>frame_2x2\<close> (see \<open>first_frame_run\<close>).\<close>

definition state_1 :: state where
  "state_1 = \<lparr>frame_count = 1, prev_gray = Some gray_2x2, prev_depth = Some depth_2x2,
              filtered_depth = Some depth_2x2\<rparr>"

text \<open>The variables after one frame \<open>frame_1x2\<close>.\<close>

definition state_1x2 :: state where
  "state_1x2 = \<lparr>frame_count = 1, prev_gray = Some \<lparr>shape = [1, 2], data = [1, 2]\<rparr>,
                prev_depth = Some \<lparr>shape = [2], data = [0, 1]\<rparr>,
                filtered_depth = Some \<lparr>shape = [2], data = [0, 1]\<rparr>\<rparr>"

text \<open>The variables after five frames \<open>frame_2x2\<close> (see \<open>state_5_reached\<close>).\<close>

definition state_5 :: state where
  "state_5 = \<lparr>frame_count = 5, prev_gray = Some gray_2x2, prev_depth = Some depth_2x2,
              filtered_depth = Some depth_2x2\<rparr>"

section \<open>Properties\<close>

subsection \<open>Scheduling\<close>

text \<open>
  C1. For every frame index and every state of the previous depth, the scheduling
  decision is INFER exactly when the frame index is a multiple of the skip interval or
  the previous depth is undefined, and PROPAGATE otherwise; for the notebook's
  interval 5 this needs no assumption, and an interval of 1 gives INFER on every frame.
  (The interval is a positive integer; the statement holds for every nonzero one.)
\<close>

theorem schedule_rule:
  "(FRAME_SKIP cf \<noteq> 0 \<longrightarrow>
      schedule cf n pd = Inr (if n mod FRAME_SKIP cf = 0 \<or> pd = None then INFER else PROPAGATE))
   \<and> schedule configuration n pd = Inr (if n mod 5 = 0 \<or> pd = None then INFER else PROPAGATE)
   \<and> schedule (cf\<lparr>FRAME_SKIP := 1\<rparr>) n pd = Inr INFER"
  by (simp add: schedule_def configuration_def)

theorem schedule_rule_witness:
  "FRAME_SKIP configuration \<noteq> 0
   \<and> schedule configuration 7 (Some (0::nat)) = Inr PROPAGATE
   \<and> schedule configuration 10 (Some (0::nat)) = Inr INFER
   \<and> schedule configuration 7 (None :: nat option) = Inr INFER"
  using schedule_rule [of configuration 7 "Some (0::nat)"]
        schedule_rule [of configuration 10 "Some (0::nat)"]
        schedule_rule [of configuration 7 "None :: nat option"]
  by (simp add: configuration_def)

subsection \<open>Array arithmetic\<close>

text \<open>Two arrays of one shape broadcast to that shape, element by element.\<close>

lemma broadcast_rev_same: "broadcast_rev xs xs = Some xs"
  by (induction xs) auto

lemma broadcast_shapes_same: "broadcast_shapes s s = Some s"
  by (simp add: broadcast_shapes_def broadcast_rev_same)

lemma source_index_same: "i < prod_list ds \<Longrightarrow> source_index ds ds i = i"
proof (induction ds arbitrary: i)
  case Nil
  then show ?case by simp
next
  case (Cons d ds)
  show ?case
  proof (cases "d = 1")
    case True
    with Cons show ?thesis by simp
  next
    case False
    from Cons.prems have lt: "i < d * prod_list ds" by simp
    then have "0 < d" by (cases d) auto
    with lt have "i div d < prod_list ds"
      by (simp add: less_mult_imp_div_less mult.commute)
    then have "source_index ds ds (i div d) = i div d" by (rule Cons.IH)
    with False show ?thesis by simp
  qed
qed

lemma map_nth_pair:
  "length xs = n \<Longrightarrow> length ys = n \<Longrightarrow>
   map (\<lambda>i. f (xs ! i) (ys ! i)) [0..<n] = map2 f xs ys"
  by (rule nth_equalityI) auto

lemma np_binary_same_shape:
  assumes "well_formed a" "well_formed b" "shape a = shape b"
  shows "np_binary f a b = Inr \<lparr>shape = shape a, data = map2 f (data a) (data b)\<rparr>"
proof -
  let ?n = "prod_list (shape a)"
  have idx: "source_index (rev (shape a)) (rev (shape a)) i = i" if "i < ?n" for i
    using that by (intro source_index_same) simp
  have "map (\<lambda>i. f (data a ! source_index (rev (shape a)) (rev (shape a)) i)
                    (data b ! source_index (rev (shape a)) (rev (shape a)) i)) [0..<?n]
        = map (\<lambda>i. f (data a ! i) (data b ! i)) [0..<?n]"
    by (rule map_cong) (auto simp: idx)
  also have "\<dots> = map2 f (data a) (data b)"
    using assms by (intro map_nth_pair) (simp_all add: well_formed_def)
  finally show ?thesis
    using assms(3) by (simp add: np_binary_def broadcast_shapes_same)
qed

lemma np_binary_shape:
  assumes "np_binary f a b = Inr out" "shape a = shape b"
  shows "shape out = shape b"
proof -
  have "broadcast_shapes (shape a) (shape b) = Some (shape b)"
    unfolding assms(2) by (rule broadcast_shapes_same)
  with assms(1) show ?thesis by (auto simp: np_binary_def)
qed

subsection \<open>Temporal filter\<close>

lemma well_formed_np_scale: "well_formed a \<Longrightarrow> well_formed (np_scale k a)"
  by (simp add: well_formed_def np_scale_def)

lemma apply_temporal_filter_same_shape:
  assumes "well_formed new_depth" "well_formed prev_filtered"
    and "shape prev_filtered = shape new_depth"
  shows "apply_temporal_filter cf new_depth prev_filtered =
         Inr \<lparr>shape = shape new_depth,
              data = map2 (\<lambda>p n. TEMPORAL_ALPHA cf * p + (1 - TEMPORAL_ALPHA cf) * n)
                          (data prev_filtered) (data new_depth)\<rparr>"
proof -
  have "np_binary (+) (np_scale (TEMPORAL_ALPHA cf) prev_filtered)
                      (np_scale (1 - TEMPORAL_ALPHA cf) new_depth)
        = Inr \<lparr>shape = shape (np_scale (TEMPORAL_ALPHA cf) prev_filtered),
               data = map2 (+) (data (np_scale (TEMPORAL_ALPHA cf) prev_filtered))
                               (data (np_scale (1 - TEMPORAL_ALPHA cf) new_depth))\<rparr>"
    using assms by (intro np_binary_same_shape well_formed_np_scale) (simp_all add: np_scale_def)
  also have "map2 (+) (data (np_scale (TEMPORAL_ALPHA cf) prev_filtered))
                      (data (np_scale (1 - TEMPORAL_ALPHA cf) new_depth))
             = map2 (\<lambda>p n. TEMPORAL_ALPHA cf * p + (1 - TEMPORAL_ALPHA cf) * n)
                    (data prev_filtered) (data new_depth)"
    by (simp add: np_scale_def zip_map_map map_zip_map map_zip_map2 case_prod_beta)
  finally show ?thesis
    using assms(3) by (simp add: apply_temporal_filter_def np_scale_def)
qed



subsection \<open>Temporal filter in float32 arithmetic\<close>

text \<open>Evaluating the rounding at a number whose binary exponent is known.\<close>

lemma exponent_search_eq:
  assumes "2 powi e \<le> x" "x < 2 powi (e + 1)" "e \<le> e0" "e0 - int k \<le> e"
  shows "exponent_search k e0 x = e"
  using assms
proof (induction k arbitrary: e0)
  case 0
  then show ?case by simp
next
  case (Suc k)
  show ?case
  proof (cases "2 powi e0 \<le> x")
    case True
    with Suc.prems(2) have "(2::real) powi e0 < 2 powi (e + 1)" by simp
    then have "e0 < e + 1"
      using power_int_increasing [of "e + 1" e0 "2::real"] by (cases "e0 < e + 1") auto
    with Suc.prems(3) True show ?thesis by simp
  next
    case False
    with Suc.prems(1) have "(2::real) powi e < 2 powi e0" by simp
    then have "e < e0"
      using power_int_increasing [of e0 e "2::real"] by (cases "e < e0") auto
    with Suc.prems have "exponent_search k (e0 - 1) x = e"
      by (intro Suc.IH) simp_all
    with False show ?thesis by simp
  qed
qed

lemma round_float_eq:
  assumes "2 powi e \<le> \<bar>x\<bar>" "\<bar>x\<bar> < 2 powi (e + 1)" "emin \<le> e" "e \<le> emax"
  shows "round_float prec emin emax x =
         of_int (round_half_even (x / 2 powi (e - int prec + 1))) * 2 powi (e - int prec + 1)"
proof -
  have "exponent_search (nat (emax - emin)) emax \<bar>x\<bar> = e"
    using assms by (intro exponent_search_eq) simp_all
  then show ?thesis by (simp add: round_float_def Let_def)
qed

text \<open>
  The error of one rounding: half a unit in the last place, relative in the normal
  range and absolute in the subnormal range.
\<close>

lemma round_half_even_error: "\<bar>of_int (round_half_even y) - y\<bar> \<le> 1 / 2"
proof -
  have "of_int \<lfloor>y\<rfloor> \<le> y" "y < of_int \<lfloor>y\<rfloor> + 1" by linarith+
  then show ?thesis by (auto simp: round_half_even_def Let_def)
qed

lemma round_half_even_nonneg: "0 \<le> y \<Longrightarrow> 0 \<le> round_half_even y"
proof -
  assume "0 \<le> y"
  then have "0 \<le> \<lfloor>y\<rfloor>" by simp
  then show ?thesis by (auto simp: round_half_even_def Let_def)
qed

lemma round_half_even_le: "y \<le> of_int N \<Longrightarrow> round_half_even y \<le> N"
proof -
  assume le: "y \<le> of_int N"
  then have fl: "\<lfloor>y\<rfloor> \<le> N" by (simp add: floor_le_iff)
  show ?thesis
  proof (cases "\<lfloor>y\<rfloor> = N")
    case True
    then have "of_int N \<le> y" by (metis of_int_floor_le)
    with le have "y = of_int N" by simp
    then show ?thesis by (simp add: round_half_even_def Let_def)
  next
    case False
    with fl have "\<lfloor>y\<rfloor> + 1 \<le> N" by simp
    with fl show ?thesis by (auto simp: round_half_even_def Let_def)
  qed
qed

lemma exponent_search_spec:
  "(2 powi (exponent_search k e0 x) \<le> x \<or> exponent_search k e0 x = e0 - int k)
   \<and> exponent_search k e0 x \<le> e0"
proof (induction k arbitrary: e0)
  case 0
  then show ?case by simp
next
  case (Suc k)
  from Suc.IH [of "e0 - 1"] show ?case by auto
qed

lemma round_float_error:
  assumes "emin \<le> emax"
  shows "\<bar>round_float prec emin emax x - x\<bar>
         \<le> 2 powi (- int prec) * \<bar>x\<bar> + 2 powi (emin - int prec)"
proof -
  define e where "e = exponent_search (nat (emax - emin)) emax \<bar>x\<bar>"
  define q :: real where "q = 2 powi (e - int prec + 1)"
  define r where "r = round_half_even (x / q)"
  have q: "0 < q" by (simp add: q_def)
  have fl: "round_float prec emin emax x = of_int r * q"
    by (simp add: round_float_def Let_def e_def q_def r_def)
  have "\<bar>of_int r * q - x\<bar> = \<bar>of_int r - x / q\<bar> * q"
  proof -
    have "of_int r * q - x = (of_int r - x / q) * q"
      using q by (simp add: field_simps)
    then show ?thesis using q by (simp add: abs_mult)
  qed
  also have "\<dots> \<le> 1 / 2 * q"
    using round_half_even_error [of "x / q"] q unfolding r_def
    by (intro mult_right_mono) simp_all
  also have "1 / 2 * q = 2 powi (e - int prec)"
  proof -
    have "q = 2 powi (e - int prec) * 2 powi 1"
      unfolding q_def by (subst power_int_add [symmetric]) simp_all
    then show ?thesis by simp
  qed
  finally have err: "\<bar>round_float prec emin emax x - x\<bar> \<le> 2 powi (e - int prec)"
    by (simp add: fl)
  have split: "(2::real) powi (e - int prec) = 2 powi e * 2 powi (- int prec)"
    by (subst power_int_add [symmetric]) simp_all
  from exponent_search_spec [of "nat (emax - emin)" emax "\<bar>x\<bar>"]
  consider "2 powi e \<le> \<bar>x\<bar>" | "e = emin"
    using assms by (auto simp: e_def)
  then have "(2::real) powi (e - int prec)
             \<le> 2 powi (- int prec) * \<bar>x\<bar> + 2 powi (emin - int prec)"
  proof cases
    case 1
    then have "2 powi e * 2 powi (- int prec) \<le> \<bar>x\<bar> * 2 powi (- int prec)"
      by (intro mult_right_mono) simp_all
    moreover have "(0::real) \<le> 2 powi (emin - int prec)" by simp
    ultimately have "2 powi e * 2 powi (- int prec)
                     \<le> \<bar>x\<bar> * 2 powi (- int prec) + 2 powi (emin - int prec)"
      by linarith
    then show ?thesis unfolding split by (simp only: mult.commute)
  next
    case 2
    moreover have "(0::real) \<le> 2 powi (- int prec) * \<bar>x\<bar>" by simp
    ultimately show ?thesis by simp
  qed
  with err show ?thesis by linarith
qed

lemma round_float_nonneg:
  assumes "0 \<le> x"
  shows "0 \<le> round_float prec emin emax x"
proof -
  have "0 \<le> x / 2 powi (exponent_search (nat (emax - emin)) emax \<bar>x\<bar> - int prec + 1)"
    using assms by simp
  then show ?thesis
    by (simp add: round_float_def Let_def round_half_even_nonneg)
qed

lemma round_float_le_one:
  assumes "0 \<le> x" "x \<le> 1" "emin \<le> 0" "emin \<le> emax" "1 \<le> prec"
  shows "round_float prec emin emax x \<le> 1"
proof -
  define e where "e = exponent_search (nat (emax - emin)) emax \<bar>x\<bar>"
  define q :: real where "q = 2 powi (e - int prec + 1)"
  have q: "0 < q" by (simp add: q_def)
  from exponent_search_spec [of "nat (emax - emin)" emax "\<bar>x\<bar>"]
  consider "2 powi e \<le> \<bar>x\<bar>" | "e = emin"
    using assms by (auto simp: e_def)
  then have e: "e \<le> 0"
  proof cases
    case 1
    with assms have "(2::real) powi e \<le> 2 powi 0" by simp
    then show ?thesis
      using power_int_strict_increasing [of 0 e "2::real"] by (cases "0 < e") auto
  next
    case 2
    with assms show ?thesis by simp
  qed
  define j where "j = nat (int prec - 1 - e)"
  have inv: "1 / q = of_int (2 ^ j)"
  proof -
    have "1 / q = 2 powi (- (e - int prec + 1))"
      unfolding q_def by (rule power_int_minus_divide [symmetric])
    also have "- (e - int prec + 1) = int j"
      using e assms(5) by (simp add: j_def)
    finally show ?thesis by simp
  qed
  have "x / q \<le> 1 / q" using assms q by (simp add: divide_right_mono)
  then have "round_half_even (x / q) \<le> 2 ^ j"
    unfolding inv by (rule round_half_even_le)
  then have "of_int (round_half_even (x / q)) * q \<le> of_int (2 ^ j) * q"
    using q by (intro mult_right_mono) simp_all
  also have "of_int (2 ^ j) * q = 1"
    using inv q by (simp add: field_simps)
  finally show ?thesis
    by (simp add: round_float_def Let_def e_def q_def)
qed

lemma float32_error: "\<bar>float32 x - x\<bar> \<le> \<bar>x\<bar> / 2 ^ 24 + 1 / 2 ^ 150"
  using round_float_error [of "- 126" 127 24 x]
  by (simp add: float32_def power_int_minus_divide)

lemma float64_error: "\<bar>float64 x - x\<bar> \<le> \<bar>x\<bar> / 2 ^ 53 + 1 / 2 ^ 1075"
  using round_float_error [of "- 1022" 1023 53 x]
  by (simp add: float64_def power_int_minus_divide)

lemma float32_unit: "0 \<le> x \<Longrightarrow> x \<le> 1 \<Longrightarrow> 0 \<le> float32 x \<and> float32 x \<le> 1"
  by (simp add: float32_def round_float_nonneg round_float_le_one)

lemma float64_unit: "0 \<le> x \<Longrightarrow> x \<le> 1 \<Longrightarrow> 0 \<le> float64 x \<and> float64 x \<le> 1"
  by (simp add: float64_def round_float_nonneg round_float_le_one)

text \<open>The float32 weights add up to 1 within 2 units in the last place.\<close>

lemma float32_weights:
  assumes "0 < \<alpha>" "\<alpha> < 1"
  defines "a \<equiv> float32 (float64 \<alpha>)" and "b \<equiv> float32 (float64 (1 - float64 \<alpha>))"
  shows "0 \<le> a" "a \<le> 1" "0 \<le> b" "b \<le> 1" "\<bar>a + b - 1\<bar> \<le> 2 / 2 ^ 24"
proof -
  define A where "A = float64 \<alpha>"
  define B where "B = float64 (1 - A)"
  have A: "0 \<le> A" "A \<le> 1"
    using float64_unit [of \<alpha>] assms(1,2) by (simp_all add: A_def)
  then have B: "0 \<le> B" "B \<le> 1"
    using float64_unit [of "1 - A"] by (simp_all add: B_def)
  show "0 \<le> a" "a \<le> 1"
    using float32_unit [OF A] by (simp_all add: a_def A_def)
  show "0 \<le> b" "b \<le> 1"
    using float32_unit [OF B] by (simp_all add: b_def B_def A_def)
  have small: "(1::real) / 2 ^ 1075 \<le> 1 / 2 ^ 53" "(1::real) / 2 ^ 150 \<le> 1 / 2 ^ 53"
    by (simp_all add: field_simps)
  have eB: "\<bar>B - (1 - A)\<bar> \<le> 2 / 2 ^ 53"
    using float64_error [of "1 - A"] A small(1) by (simp add: B_def field_simps abs_if split: if_splits)
  have ea: "\<bar>a - A\<bar> \<le> A / 2 ^ 24 + 1 / 2 ^ 53"
    using float32_error [of A] A small(2) by (simp add: a_def A_def)
  have eb: "\<bar>b - B\<bar> \<le> B / 2 ^ 24 + 1 / 2 ^ 53"
    using float32_error [of B] B small(2) by (simp add: b_def B_def A_def)
  from eB ea eb A B show "\<bar>a + b - 1\<bar> \<le> 2 / 2 ^ 24"
    unfolding abs_le_iff by (simp add: field_simps)
qed

text \<open>One pixel: the rounded blend stays within the slack of the two inputs.\<close>

lemma blend_float32_between:
  fixes a b p n :: real
  assumes a: "0 \<le> a" "a \<le> 1" and b: "0 \<le> b" "b \<le> 1"
    and ab: "\<bar>a + b - 1\<bar> \<le> 2 / 2 ^ 24"
  defines "M \<equiv> max \<bar>p\<bar> \<bar>n\<bar>"
  defines "out \<equiv> float32 (float32 (a * p) + float32 (b * n))"
  shows "min p n - (M / 2 ^ 21 + 1 / 2 ^ 147) \<le> out"
    and "out \<le> max p n + (M / 2 ^ 21 + 1 / 2 ^ 147)"
proof -
  define s :: real where "s = 1 / 2 ^ 150"
  have s: "0 \<le> s" "1 / 2 ^ 147 = 8 * s" by (simp_all add: s_def)
  have M: "\<bar>p\<bar> \<le> M" "\<bar>n\<bar> \<le> M" "0 \<le> M" by (simp_all add: M_def)
  define x1 x2 y1 y2 z where "x1 = a * p" and "x2 = b * n"
    and "y1 = float32 x1" and "y2 = float32 x2" and "z = y1 + y2"
  have err: "\<bar>float32 x - x\<bar> \<le> \<bar>x\<bar> / 16777216 + s" for x
    using float32_error [of x] by (simp add: s_def)
  have x1: "\<bar>x1\<bar> \<le> M"
  proof -
    have "\<bar>x1\<bar> = a * \<bar>p\<bar>" using a by (simp add: x1_def abs_mult)
    also have "\<dots> \<le> 1 * M" using a M by (intro mult_mono) simp_all
    finally show ?thesis by simp
  qed
  have x2: "\<bar>x2\<bar> \<le> M"
  proof -
    have "\<bar>x2\<bar> = b * \<bar>n\<bar>" using b by (simp add: x2_def abs_mult)
    also have "\<dots> \<le> 1 * M" using b M by (intro mult_mono) simp_all
    finally show ?thesis by simp
  qed
  have e1: "\<bar>y1 - x1\<bar> \<le> M / 16777216 + s"
    using err [of x1] x1 unfolding y1_def by argo
  have e2: "\<bar>y2 - x2\<bar> \<le> M / 16777216 + s"
    using err [of x2] x2 unfolding y2_def by argo
  have z: "\<bar>z\<bar> \<le> 2 * M + 2 * (M / 16777216 + s)"
    using e1 e2 x1 x2 unfolding z_def by argo
  have out: "out = float32 z"
    by (simp add: out_def z_def y1_def y2_def x1_def x2_def)
  have e3: "\<bar>out - z\<bar> \<le> (2 * M + 2 * (M / 16777216 + s)) / 16777216 + s"
    using err [of z] z unfolding out by argo
  have tot: "\<bar>out - (x1 + x2)\<bar> \<le> 6 * M / 16777216 + 8 * s"
    using e1 e2 e3 M(3) s(1) unfolding z_def by argo
  have ab': "\<bar>a + b - 1\<bar> \<le> 2 / 16777216" using ab by simp
  have lo: "min p n - 2 * M / 16777216 \<le> x1 + x2"
  proof -
    have "a * min p n \<le> a * p" "b * min p n \<le> b * n"
      using a b by (simp_all add: mult_left_mono)
    then have "(a + b) * min p n \<le> x1 + x2"
      by (simp add: x1_def x2_def algebra_simps)
    moreover have "\<bar>(a + b - 1) * min p n\<bar> \<le> 2 / 16777216 * M"
      unfolding abs_mult using ab' M by (intro mult_mono) (auto simp: min_def)
    moreover have "(a + b - 1) * min p n = (a + b) * min p n - min p n"
      by (simp add: algebra_simps)
    ultimately show ?thesis by argo
  qed
  have hi: "x1 + x2 \<le> max p n + 2 * M / 16777216"
  proof -
    have "a * p \<le> a * max p n" "b * n \<le> b * max p n"
      using a b by (simp_all add: mult_left_mono)
    then have "x1 + x2 \<le> (a + b) * max p n"
      by (simp add: x1_def x2_def algebra_simps)
    moreover have "\<bar>(a + b - 1) * max p n\<bar> \<le> 2 / 16777216 * M"
      unfolding abs_mult using ab' M by (intro mult_mono) (auto simp: max_def)
    moreover have "(a + b - 1) * max p n = (a + b) * max p n - max p n"
      by (simp add: algebra_simps)
    ultimately show ?thesis by argo
  qed
  have slack: "M / 2 ^ 21 + 1 / 2 ^ 147 = 8 * M / 16777216 + 8 * s"
    by (simp add: s_def)
  from tot lo show "min p n - (M / 2 ^ 21 + 1 / 2 ^ 147) \<le> out"
    unfolding slack by argo
  from tot hi show "out \<le> max p n + (M / 2 ^ 21 + 1 / 2 ^ 147)"
    unfolding slack by argo
qed

lemma well_formed_np_scale_float32: "well_formed a \<Longrightarrow> well_formed (np_scale_float32 k a)"
  by (simp add: well_formed_def np_scale_float32_def)

lemma apply_temporal_filter_float32_same_shape:
  assumes "well_formed new_depth" "well_formed prev_filtered"
    and "shape prev_filtered = shape new_depth"
  shows "apply_temporal_filter_float32 cf new_depth prev_filtered =
         Inr \<lparr>shape = shape new_depth,
              data = map2 (\<lambda>p n. float32
                             (float32 (float32 (float64 (TEMPORAL_ALPHA cf)) * p)
                              + float32 (float32 (float64 (1 - float64 (TEMPORAL_ALPHA cf))) * n)))
                          (data prev_filtered) (data new_depth)\<rparr>"
proof -
  let ?P = "np_scale_float32 (float64 (TEMPORAL_ALPHA cf)) prev_filtered"
  let ?N = "np_scale_float32 (float64 (1 - float64 (TEMPORAL_ALPHA cf))) new_depth"
  have "np_binary (\<lambda>x y. float32 (x + y)) ?P ?N
        = Inr \<lparr>shape = shape ?P,
               data = map2 (\<lambda>x y. float32 (x + y)) (data ?P) (data ?N)\<rparr>"
    using assms
    by (intro np_binary_same_shape well_formed_np_scale_float32)
       (simp_all add: np_scale_float32_def)
  also have "map2 (\<lambda>x y. float32 (x + y)) (data ?P) (data ?N)
             = map2 (\<lambda>p n. float32
                             (float32 (float32 (float64 (TEMPORAL_ALPHA cf)) * p)
                              + float32 (float32 (float64 (1 - float64 (TEMPORAL_ALPHA cf))) * n)))
                    (data prev_filtered) (data new_depth)"
    by (simp add: np_scale_float32_def zip_map_map map_zip_map map_zip_map2 case_prod_beta)
  finally show ?thesis
    using assms(3) by (simp add: apply_temporal_filter_float32_def np_scale_float32_def)
qed

text \<open>The notebook's weights 0.9 and 1 - 0.9 in float32, and the blend of 3 with 3.\<close>

lemma alpha_float64: "float64 (9 / 10) = 8106479329266893 / 9007199254740992"
  unfolding float64_def
  by (subst round_float_eq [where e = "- 1"])
     (simp_all add: round_half_even_def Let_def power_int_minus_divide)

lemma weight_prev: "float32 (float64 (9 / 10)) = 7549747 / 8388608"
  unfolding alpha_float64 unfolding float32_def
  by (subst round_float_eq [where e = "- 1"])
     (simp_all add: round_half_even_def Let_def power_int_minus_divide)

lemma weight_new: "float32 (float64 (1 - float64 (9 / 10))) = 13421773 / 134217728"
proof -
  have beta: "float64 (1 - float64 (9 / 10)) = 900719925474099 / 9007199254740992"
    unfolding alpha_float64 unfolding float64_def
    by (subst round_float_eq [where e = "- 4"])
       (simp_all add: round_half_even_def Let_def power_int_minus_divide)
  show ?thesis
    unfolding beta unfolding float32_def
    by (subst round_float_eq [where e = "- 4"])
       (simp_all add: round_half_even_def Let_def power_int_minus_divide)
qed

lemma blend_three:
  "float32 (float32 (7549747 / 8388608 * 3) + float32 (13421773 / 134217728 * 3))
   = 12582911 / 4194304"
proof -
  have p: "float32 (7549747 / 8388608 * 3) = 2831155 / 1048576"
    unfolding float32_def
    by (subst round_float_eq [where e = 1])
       (simp_all add: round_half_even_def Let_def power_int_minus_divide)
  have n: "float32 (13421773 / 134217728 * 3) = 5033165 / 16777216"
    unfolding float32_def
    by (subst round_float_eq [where e = "- 2"])
       (simp_all add: round_half_even_def Let_def power_int_minus_divide)
  show ?thesis
    unfolding p n unfolding float32_def
    by (subst round_float_eq [where e = 1])
       (simp_all add: round_half_even_def Let_def power_int_minus_divide)
qed

lemma blend_three_configuration:
  "float32 (float32 (float32 (float64 (TEMPORAL_ALPHA configuration)) * 3)
            + float32 (float32 (float64 (1 - float64 (TEMPORAL_ALPHA configuration))) * 3))
   = 12582911 / 4194304"
proof -
  have "TEMPORAL_ALPHA configuration = 9 / 10" by (simp add: configuration_def)
  then show ?thesis by (simp only: weight_prev weight_new blend_three)
qed

text \<open>
  C10, as claimed: each pixel of the temporal filter's output lies between the smaller
  and the larger of the two inputs at that pixel. In the float32 arithmetic of the
  notebook this fails: with \<open>ALPHA = 0.9\<close> and both inputs equal to 3 the output is
  \<open>12582911 / 4194304 = 3 - 2 ^ -22\<close>, below both inputs.
\<close>

theorem temporal_filter_undershoots:
  "apply_temporal_filter_float32 configuration depth_three depth_three
     = Inr \<lparr>shape = [1, 1], data = [12582911 / 4194304]\<rparr>
   \<and> (12582911 / 4194304 :: real) < min (data depth_three ! 0) (data depth_three ! 0)"
proof -
  have wf: "well_formed depth_three" by (simp add: well_formed_def depth_three_def)
  have "apply_temporal_filter_float32 configuration depth_three depth_three
        = Inr \<lparr>shape = [1, 1],
               data = [float32 (float32 (float32 (float64 (TEMPORAL_ALPHA configuration)) * 3)
                       + float32 (float32 (float64 (1 - float64 (TEMPORAL_ALPHA configuration))) * 3))]\<rparr>"
    unfolding apply_temporal_filter_float32_same_shape [OF wf wf refl]
    by (simp add: depth_three_def)
  then show ?thesis
    unfolding blend_three_configuration by (simp add: depth_three_def)
qed

text \<open>
  C10, amended. For every \<open>ALPHA\<close> strictly between 0 and 1 and every pair of defined
  inputs of the same dimensions with values of magnitude at most \<open>2 ^ 127\<close>, each pixel
  of the temporal filter's float32 output lies between the smaller and the larger of
  the two inputs at that pixel up to rounding: it is at least the smaller input minus
  \<open>e\<close> and at most the larger input plus \<open>e\<close>, where \<open>e\<close> is the larger of the two
  magnitudes divided by \<open>2 ^ 21\<close>, plus \<open>2 ^ -147\<close>. The bound on the magnitudes keeps
  every float32 operation of the filter below \<open>2 ^ 128\<close>, where the notebook's
  arithmetic would overflow to infinity.
\<close>

theorem temporal_filter_float32_bounds:
  assumes "well_formed new_depth" "well_formed prev_filtered"
    and "shape prev_filtered = shape new_depth"
    and "0 < TEMPORAL_ALPHA cf" "TEMPORAL_ALPHA cf < 1"
    and "\<forall>v \<in> set (data new_depth) \<union> set (data prev_filtered). \<bar>v\<bar> \<le> 2 ^ 127"
  shows "\<exists>out. apply_temporal_filter_float32 cf new_depth prev_filtered = Inr out
           \<and> shape out = shape new_depth
           \<and> length (data out) = length (data new_depth)
           \<and> (\<forall>i < length (data new_depth).
                 min (data prev_filtered ! i) (data new_depth ! i)
                   - (max \<bar>data prev_filtered ! i\<bar> \<bar>data new_depth ! i\<bar> / 2 ^ 21 + 1 / 2 ^ 147)
                 \<le> data out ! i
                 \<and> data out ! i
                 \<le> max (data prev_filtered ! i) (data new_depth ! i)
                   + (max \<bar>data prev_filtered ! i\<bar> \<bar>data new_depth ! i\<bar> / 2 ^ 21 + 1 / 2 ^ 147))"
proof -
  have len: "length (data prev_filtered) = length (data new_depth)"
    using assms by (simp add: well_formed_def)
  note w = float32_weights [OF assms(4,5)]
  show ?thesis
    unfolding apply_temporal_filter_float32_same_shape [OF assms(1-3)]
    using len blend_float32_between [OF w] by simp
qed

theorem temporal_filter_float32_bounds_witness:
  "well_formed depth_three \<and> shape depth_three = shape depth_three
   \<and> 0 < TEMPORAL_ALPHA configuration \<and> TEMPORAL_ALPHA configuration < 1
   \<and> \<bar>data depth_three ! 0\<bar> \<le> 2 ^ 127
   \<and> (\<exists>out. apply_temporal_filter_float32 configuration depth_three depth_three = Inr out
          \<and> 3 - (3 / 2 ^ 21 + 1 / 2 ^ 147) \<le> data out ! 0
          \<and> data out ! 0 \<le> 3 + (3 / 2 ^ 21 + 1 / 2 ^ 147))"
proof -
  have h: "well_formed depth_three" "shape depth_three = shape depth_three"
    "0 < TEMPORAL_ALPHA configuration" "TEMPORAL_ALPHA configuration < 1"
    "\<forall>v \<in> set (data depth_three) \<union> set (data depth_three). \<bar>v\<bar> \<le> 2 ^ 127"
    by (simp_all add: well_formed_def depth_three_def configuration_def)
  from temporal_filter_float32_bounds [OF h(1,1,2,3,4,5)]
  obtain out where out: "apply_temporal_filter_float32 configuration depth_three depth_three = Inr out"
    "\<forall>i < length (data depth_three).
        min (data depth_three ! i) (data depth_three ! i)
          - (max \<bar>data depth_three ! i\<bar> \<bar>data depth_three ! i\<bar> / 2 ^ 21 + 1 / 2 ^ 147)
        \<le> data out ! i
        \<and> data out ! i
        \<le> max (data depth_three ! i) (data depth_three ! i)
          + (max \<bar>data depth_three ! i\<bar> \<bar>data depth_three ! i\<bar> / 2 ^ 21 + 1 / 2 ^ 147)"
    by blast
  have "(0::nat) < length (data depth_three)" by (simp add: depth_three_def)
  from out(2) [rule_format, OF this]
  have "3 - (3 / 2 ^ 21 + 1 / 2 ^ 147) \<le> data out ! 0
        \<and> data out ! 0 \<le> 3 + (3 / 2 ^ 21 + 1 / 2 ^ 147)"
    by (simp add: depth_three_def)
  moreover have "\<bar>data depth_three ! 0\<bar> \<le> 2 ^ 127" by (simp add: depth_three_def)
  ultimately show ?thesis using h(1-4) out(1) by blast
qed

subsection \<open>Warp\<close>

lemma div_less_rows: "i < h * w \<Longrightarrow> i div w < (h::nat)"
  by (simp add: less_mult_imp_div_less)

lemma mod_less_cols: "i < h * w \<Longrightarrow> i mod w < (w::nat)"
  by (cases w) auto

lemma remap_coordinates:
  assumes "shape flw = [h, w]" "well_formed flw"
  shows "np_binary (\<lambda>m f. real m + f) (fst (meshgrid_xy (arange w) (arange h))) (component fst flw)
         = Inr \<lparr>shape = [h, w],
                data = map (\<lambda>i. real (i mod w) + fst (data flw ! i)) [0..<h * w]\<rparr>"
    and "np_binary (\<lambda>m f. real m + f) (snd (meshgrid_xy (arange w) (arange h))) (component snd flw)
         = Inr \<lparr>shape = [h, w],
                data = map (\<lambda>i. real (i div w) + snd (data flw ! i)) [0..<h * w]\<rparr>"
proof -
  have len: "length (data flw) = h * w"
    using assms by (simp add: well_formed_def)
  let ?X = "fst (meshgrid_xy (arange w) (arange h))"
  let ?Y = "snd (meshgrid_xy (arange w) (arange h))"
  have X: "?X = \<lparr>shape = [h, w], data = map (\<lambda>i. [0..<w] ! (i mod w)) [0..<h * w]\<rparr>"
    and Y: "?Y = \<lparr>shape = [h, w], data = map (\<lambda>i. [0..<h] ! (i div w)) [0..<h * w]\<rparr>"
    by (simp_all add: meshgrid_xy_def arange_def)
  have wfX: "well_formed ?X" and wfY: "well_formed ?Y"
    by (simp_all add: X Y well_formed_def)
  have wfc: "well_formed (component sel flw)" for sel
    using len assms(1) by (simp add: well_formed_def component_def)
  have shX: "shape ?X = shape (component fst flw)" and shY: "shape ?Y = shape (component snd flw)"
    using assms(1) by (simp_all add: X Y component_def)
  have "map2 (\<lambda>m f. real m + f) (data ?X) (data (component fst flw))
        = map (\<lambda>i. real (i mod w) + fst (data flw ! i)) [0..<h * w]"
    using len by (intro nth_equalityI) (simp_all add: X component_def mod_less_cols)
  then show "np_binary (\<lambda>m f. real m + f) ?X (component fst flw)
         = Inr \<lparr>shape = [h, w],
                data = map (\<lambda>i. real (i mod w) + fst (data flw ! i)) [0..<h * w]\<rparr>"
    unfolding np_binary_same_shape [OF wfX wfc shX] by (simp add: X)
  have "map2 (\<lambda>m f. real m + f) (data ?Y) (data (component snd flw))
        = map (\<lambda>i. real (i div w) + snd (data flw ! i)) [0..<h * w]"
    using len by (intro nth_equalityI) (simp_all add: Y component_def div_less_rows)
  then show "np_binary (\<lambda>m f. real m + f) ?Y (component snd flw)
         = Inr \<lparr>shape = [h, w],
                data = map (\<lambda>i. real (i div w) + snd (data flw ! i)) [0..<h * w]\<rparr>"
    unfolding np_binary_same_shape [OF wfY wfc shY] by (simp add: Y)
qed

lemma warp_depth_eq:
  assumes "shape flw = [h, w]" "well_formed flw" "shape pd = [rows, cols]"
    and "0 < h" "0 < w" "0 < rows" "0 < cols"
  shows "warp_depth flw pd =
         Inr \<lparr>shape = [h, w],
              data = map (\<lambda>i. bilinear_reflect pd rows cols
                                 (real (i mod w) + fst (data flw ! i))
                                 (real (i div w) + snd (data flw ! i)))
                         [0..<h * w]\<rparr>"
proof -
  obtain X Y where XY: "meshgrid_xy (arange w) (arange h) = (X, Y)"
    by (cases "meshgrid_xy (arange w) (arange h)")
  have X: "np_binary (\<lambda>m f. real m + f) X (component fst flw)
         = Inr \<lparr>shape = [h, w],
                data = map (\<lambda>i. real (i mod w) + fst (data flw ! i)) [0..<h * w]\<rparr>"
    and Y: "np_binary (\<lambda>m f. real m + f) Y (component snd flw)
         = Inr \<lparr>shape = [h, w],
                data = map (\<lambda>i. real (i div w) + snd (data flw ! i)) [0..<h * w]\<rparr>"
    using remap_coordinates [OF assms(1,2)] by (simp_all add: XY)
  show ?thesis
    using assms(3-7) by (simp add: warp_depth_def assms(1) XY X Y remap_def)
qed

lemma reflect_inside: "x < len \<Longrightarrow> borderInterpolate_reflect (int x) len = x"
  by (simp add: borderInterpolate_reflect_def Let_def)

lemma reflect_below:
  assumes "- int len \<le> p" "p < 0"
  shows "borderInterpolate_reflect p len = nat (- p - 1)"
proof -
  have "(p + 2 * int len) mod (2 * int len) = p + 2 * int len"
    using assms by (intro mod_pos_pos_trivial) auto
  then have "p mod (2 * int len) = p + 2 * int len" by simp
  then show ?thesis
    using assms by (simp add: borderInterpolate_reflect_def Let_def)
qed

lemma reflect_above:
  assumes "int len \<le> p" "p < 2 * int len"
  shows "borderInterpolate_reflect p len = nat (2 * int len - 1 - p)"
  using assms by (simp add: borderInterpolate_reflect_def Let_def)

lemma reflect_in_range:
  assumes "0 < len"
  shows "borderInterpolate_reflect p len < len"
proof -
  have "0 \<le> p mod (2 * int len)" "p mod (2 * int len) < 2 * int len"
    using assms by simp_all
  then show ?thesis
    using assms by (auto simp: borderInterpolate_reflect_def Let_def)
qed

lemma bilinear_at_grid_point:
  assumes "x < cols" "y < rows"
  shows "bilinear_reflect src rows cols (real x) (real y) = data src ! (y * cols + x)"
proof -
  have "\<lfloor>real x\<rfloor> = int x" "\<lfloor>real y\<rfloor> = int y" by simp_all
  then show ?thesis
    using assms by (simp add: bilinear_reflect_def Let_def pixel_at_def reflect_inside)
qed

lemma reflect_nonneg: "0 \<le> p \<Longrightarrow> p < int len \<Longrightarrow> borderInterpolate_reflect p len = nat p"
  by (simp add: borderInterpolate_reflect_def Let_def)

lemma grid_index_less: "y < h \<Longrightarrow> x < w \<Longrightarrow> y * w + x < h * (w::nat)"
proof -
  assume "y < h" "x < w"
  then have "y * w + x < Suc y * w" by simp
  also have "\<dots> \<le> h * w" using \<open>y < h\<close> by (intro mult_le_mono1) simp
  finally show ?thesis .
qed

text \<open>
  C4. For every previous gray frame, current gray frame and previous depth map of
  identical (non-empty) dimensions \<open>h\<close> by \<open>w\<close>, the propagator succeeds with a map of the
  same dimensions whose pixel in row \<open>y\<close>, column \<open>x\<close> is the previous depth sampled with
  bilinear interpolation at \<open>(x + flow_x(x, y), y + flow_y(x, y))\<close>, the flow being the one
  computed from the two gray frames. A source index out of range is mirrored back into
  range: an index inside is kept, \<open>-1, -2, ...\<close> become \<open>0, 1, ...\<close>, and
  \<open>len, len + 1, ...\<close> become \<open>len - 1, len - 2, ...\<close>; so it is neither clamped to the
  edge nor replaced by a constant.
\<close>

theorem propagate_samples_previous_depth:
  assumes "shape pg = [h, w]" "shape g = [h, w]" "shape pd = [h, w]" "0 < h" "0 < w"
  shows "(\<exists>out. propagate_depth_optical_flow cl pg g pd = Inr out
           \<and> shape out = [h, w] \<and> length (data out) = h * w
           \<and> (\<forall>y < h. \<forall>x < w.
                 data out ! (y * w + x) =
                 bilinear_reflect pd h w (real x + fst (farneback cl pg g y x))
                                         (real y + snd (farneback cl pg g y x))))
         \<and> (\<forall>len p. 0 \<le> p \<and> p < int len \<longrightarrow> borderInterpolate_reflect p len = nat p)
         \<and> (\<forall>len p. - int len \<le> p \<and> p < 0 \<longrightarrow>
               borderInterpolate_reflect p len = nat (- p - 1))
         \<and> (\<forall>len p. int len \<le> p \<and> p < 2 * int len \<longrightarrow>
               borderInterpolate_reflect p len = nat (2 * int len - 1 - p))
         \<and> (\<forall>len p. 0 < len \<longrightarrow> borderInterpolate_reflect p len < len)"
proof -
  let ?flw = "\<lparr>shape = [h, w],
               data = map (\<lambda>i. farneback cl pg g (i div w) (i mod w)) [0..<h * w]\<rparr>"
  have flw: "calcOpticalFlowFarneback (farneback cl) pg g = Inr ?flw"
    using assms by (simp add: calcOpticalFlowFarneback_def)
  have "warp_depth ?flw pd =
        Inr \<lparr>shape = [h, w],
             data = map (\<lambda>i. bilinear_reflect pd h w
                                (real (i mod w) + fst (data ?flw ! i))
                                (real (i div w) + snd (data ?flw ! i)))
                        [0..<h * w]\<rparr>"
    using assms by (intro warp_depth_eq) (simp_all add: well_formed_def)
  then have "\<exists>out. propagate_depth_optical_flow cl pg g pd = Inr out
           \<and> shape out = [h, w] \<and> length (data out) = h * w
           \<and> (\<forall>y < h. \<forall>x < w.
                 data out ! (y * w + x) =
                 bilinear_reflect pd h w (real x + fst (farneback cl pg g y x))
                                         (real y + snd (farneback cl pg g y x)))"
    by (simp add: propagate_depth_optical_flow_def flw grid_index_less)
  then show ?thesis
    by (simp add: reflect_nonneg reflect_below reflect_above reflect_in_range)
qed

theorem propagate_samples_previous_depth_witness:
  "shape gray_2x2 = [2, 2] \<and> shape depth_2x2 = [2, 2] \<and> (0::nat) < 2
   \<and> (\<exists>out. propagate_depth_optical_flow panning gray_2x2 gray_2x2 depth_2x2 = Inr out
          \<and> shape out = [2, 2] \<and> data out ! 0 = 1 / 2 \<and> data out ! 3 = 10)"
proof -
  have h: "shape gray_2x2 = [2, 2]" "shape depth_2x2 = [2, 2]" "(0::nat) < 2"
    by (simp_all add: gray_2x2_def depth_2x2_def)
  from propagate_samples_previous_depth [OF h(1) h(1) h(2) h(3) h(3), where cl = panning]
  obtain out where out: "propagate_depth_optical_flow panning gray_2x2 gray_2x2 depth_2x2 = Inr out"
    "shape out = [2, 2]"
    "\<forall>y < 2. \<forall>x < 2. data out ! (y * 2 + x) =
        bilinear_reflect depth_2x2 2 2 (real x + fst (farneback panning gray_2x2 gray_2x2 y x))
                                       (real y + snd (farneback panning gray_2x2 gray_2x2 y x))"
    by blast
  have "(0::nat) < 2" "(1::nat) < 2" by simp_all
  note px = out(3) [rule_format, OF this(1) this(1)] out(3) [rule_format, OF this(2) this(2)]
  have p0: "data out ! 0 = 1 / 2"
    using px(1)
    by (simp add: panning_def stub_def bilinear_reflect_def pixel_at_def
        borderInterpolate_reflect_def depth_2x2_def Let_def)
  have p3: "data out ! 3 = 10"
    using px(2)
    by (simp add: panning_def stub_def bilinear_reflect_def pixel_at_def
        borderInterpolate_reflect_def depth_2x2_def Let_def)
  from h out(1,2) p0 p3 show ?thesis by blast
qed

text \<open>
  C9. For every (non-empty, two-dimensional) previous depth map, the warp step with a
  flow field of the same dimensions whose displacements are all zero returns the
  previous depth map itself: bilinear sampling at the grid points is the identity.
  (Exact arithmetic.)
\<close>

theorem zero_flow_identity:
  assumes "shape pd = [h, w]" "well_formed pd" "0 < h" "0 < w"
    and "shape flw = shape pd" "well_formed flw" "\<forall>v \<in> set (data flw). v = (0, 0)"
  shows "warp_depth flw pd = Inr pd"
proof -
  have len: "length (data pd) = h * w" "length (data flw) = h * w"
    using assms by (simp_all add: well_formed_def)
  have zero: "data flw ! i = (0, 0)" if "i < h * w" for i
    using that assms(7) len by simp
  have "map (\<lambda>i. bilinear_reflect pd h w (real (i mod w) + fst (data flw ! i))
                                          (real (i div w) + snd (data flw ! i))) [0..<h * w]
        = map (\<lambda>i. data pd ! i) [0..<h * w]"
  proof (rule map_cong [OF refl])
    fix i assume "i \<in> set [0..<h * w]"
    then have i: "i < h * w" by simp
    then have "bilinear_reflect pd h w (real (i mod w)) (real (i div w))
               = data pd ! (i div w * w + i mod w)"
      by (intro bilinear_at_grid_point mod_less_cols div_less_rows)
    then show "bilinear_reflect pd h w (real (i mod w) + fst (data flw ! i))
                                       (real (i div w) + snd (data flw ! i)) = data pd ! i"
      by (simp add: zero [OF i])
  qed
  also have "\<dots> = data pd"
    using len(1) map_nth [of "data pd"] by simp
  finally have "warp_depth flw pd = Inr \<lparr>shape = [h, w], data = data pd\<rparr>"
    using assms by (simp add: warp_depth_eq [where rows = h and cols = w])
  then show ?thesis using assms(1) by simp
qed

theorem zero_flow_identity_witness:
  "shape depth_2x2 = [2, 2] \<and> well_formed depth_2x2 \<and> (0::nat) < 2
   \<and> shape zero_flow_2x2 = shape depth_2x2 \<and> well_formed zero_flow_2x2
   \<and> warp_depth zero_flow_2x2 depth_2x2 = Inr depth_2x2"
proof -
  have h: "shape depth_2x2 = [2, 2]" "well_formed depth_2x2" "(0::nat) < 2"
    "shape zero_flow_2x2 = shape depth_2x2" "well_formed zero_flow_2x2"
    "\<forall>v \<in> set (data zero_flow_2x2). v = (0, 0)"
    by (simp_all add: depth_2x2_def zero_flow_2x2_def well_formed_def)
  from zero_flow_identity [OF h(1,2,3,3,4,5,6)] h show ?thesis by blast
qed

text \<open>
  C8. When the two grayscale inputs of the flow estimator differ in dimensions, the
  estimator returns an error and no flow field, and the propagator returns that error
  and no depth map.
\<close>

theorem flow_dimension_mismatch:
  assumes "shape pg \<noteq> shape g"
  shows "calcOpticalFlowFarneback (farneback cl) pg g = Inl CvError
         \<and> propagate_depth_optical_flow cl pg g pd = Inl CvError"
proof -
  have "calcOpticalFlowFarneback (farneback cl) pg g = Inl CvError"
    using assms by (auto simp: calcOpticalFlowFarneback_def split: list.splits)
  then show ?thesis by (simp add: propagate_depth_optical_flow_def)
qed

theorem flow_dimension_mismatch_witness:
  "shape gray_2x2 \<noteq> shape gray_3x3
   \<and> propagate_depth_optical_flow stub gray_2x2 gray_3x3 depth_2x2 = Inl CvError"
proof -
  have h: "shape gray_2x2 \<noteq> shape gray_3x3"
    by (simp add: gray_2x2_def gray_3x3_def)
  from flow_dimension_mismatch [OF h, of stub depth_2x2] h show ?thesis by blast
qed

subsection \<open>Capture loop\<close>

text \<open>What the depth branch can do, by the decision taken.\<close>

lemma depth_stage_cases:
  assumes "depth_stage cl cf s frame g = (r, s1)"
  shows "(\<exists>e. schedule cf (frame_count s) (prev_depth s) = Inl e \<and> r = Inl e \<and> s1 = s)
       \<or> (schedule cf (frame_count s) (prev_depth s) = Inr INFER
            \<and> (\<exists>e. estimate_depth_midas cl frame = Inl e \<and> r = Inl e \<and> s1 = s))
       \<or> (schedule cf (frame_count s) (prev_depth s) = Inr INFER
            \<and> (\<exists>d. estimate_depth_midas cl frame = Inr d \<and> r = Inr d
                    \<and> s1 = s\<lparr>prev_depth := Some d\<rparr>))
       \<or> (schedule cf (frame_count s) (prev_depth s) = Inr PROPAGATE \<and> s1 = s
            \<and> (prev_gray s = None \<or> prev_depth s = None) \<and> r = Inl CvError)
       \<or> (schedule cf (frame_count s) (prev_depth s) = Inr PROPAGATE \<and> s1 = s
            \<and> (\<exists>pg pd. prev_gray s = Some pg \<and> prev_depth s = Some pd
                    \<and> r = propagate_depth_optical_flow cl pg g pd))"
  using assms
  by (auto simp: depth_stage_def split: sum.splits decision.splits option.splits)

text \<open>The outcomes of the loop body, by the stage that ends it.\<close>

lemma process_frame_outcomes:
  assumes "process_frame cl cf s frame = (r, s')"
  shows "(\<exists>e. cvtColor (COLOR_BGR2GRAY cl) frame = Inl e \<and> r = Inl e \<and> s' = s)
       \<or> (\<exists>g e. cvtColor (COLOR_BGR2GRAY cl) frame = Inr g
              \<and> depth_stage cl cf s frame g = (Inl e, s') \<and> r = Inl e)
       \<or> (\<exists>g raw e. cvtColor (COLOR_BGR2GRAY cl) frame = Inr g
              \<and> depth_stage cl cf s frame g = (Inr raw, s')
              \<and> temporal_smoothing cf raw (filtered_depth s') = Inl e \<and> r = Inl e)
       \<or> (\<exists>g raw s1 f e. cvtColor (COLOR_BGR2GRAY cl) frame = Inr g
              \<and> depth_stage cl cf s frame g = (Inr raw, s1)
              \<and> temporal_smoothing cf raw (filtered_depth s1) = Inr f
              \<and> display cl f = Some e \<and> r = Inl e \<and> s' = s1\<lparr>filtered_depth := Some f\<rparr>)
       \<or> (\<exists>g raw s1 f. cvtColor (COLOR_BGR2GRAY cl) frame = Inr g
              \<and> depth_stage cl cf s frame g = (Inr raw, s1)
              \<and> temporal_smoothing cf raw (filtered_depth s1) = Inr f
              \<and> display cl f = None \<and> r = Inr f
              \<and> s' = s1\<lparr>filtered_depth := Some f, prev_gray := Some g,
                         prev_depth := Some raw, frame_count := frame_count s1 + 1\<rparr>)"
proof (cases "cvtColor (COLOR_BGR2GRAY cl) frame")
  case (Inl e)
  then have "process_frame cl cf s frame = (Inl e, s)"
    by (simp add: process_frame_def)
  with assms have "r = Inl e" "s' = s" by simp_all
  with Inl show ?thesis by simp
next
  case g: (Inr g)
  obtain r1 s1 where st: "depth_stage cl cf s frame g = (r1, s1)"
    by (cases "depth_stage cl cf s frame g")
  show ?thesis
  proof (cases r1)
    case (Inl e)
    with g st have "process_frame cl cf s frame = (Inl e, s1)"
      by (simp add: process_frame_def)
    with assms have "r = Inl e" "s' = s1" by simp_all
    with g st Inl show ?thesis by simp
  next
    case raw: (Inr raw)
    show ?thesis
    proof (cases "temporal_smoothing cf raw (filtered_depth s1)")
      case (Inl e)
      with g st raw have "process_frame cl cf s frame = (Inl e, s1)"
        by (simp add: process_frame_def)
      with assms have "r = Inl e" "s' = s1" by simp_all
      with g st raw Inl show ?thesis by simp
    next
      case f: (Inr f)
      show ?thesis
      proof (cases "display cl f")
        case None
        with g st raw f have "process_frame cl cf s frame =
            (Inr f, s1\<lparr>filtered_depth := Some f, prev_gray := Some g,
                       prev_depth := Some raw, frame_count := frame_count s1 + 1\<rparr>)"
          by (simp add: process_frame_def)
        with assms have "r = Inr f"
          "s' = s1\<lparr>filtered_depth := Some f, prev_gray := Some g,
                   prev_depth := Some raw, frame_count := frame_count s1 + 1\<rparr>"
          by simp_all
        with g st raw f None show ?thesis by simp
      next
        case (Some e)
        with g st raw f have "process_frame cl cf s frame =
            (Inl e, s1\<lparr>filtered_depth := Some f\<rparr>)"
          by (simp add: process_frame_def)
        with assms have "r = Inl e" "s' = s1\<lparr>filtered_depth := Some f\<rparr>" by simp_all
        with g st raw f Some show ?thesis by simp
      qed
    qed
  qed
qed

lemma process_frame_success:
  assumes "process_frame cl cf s frame = (Inr out, s')"
  shows "\<exists>g raw.
           cvtColor (COLOR_BGR2GRAY cl) frame = Inr g
           \<and> (schedule cf (frame_count s) (prev_depth s) = Inr INFER
                \<and> estimate_depth_midas cl frame = Inr raw
              \<or> schedule cf (frame_count s) (prev_depth s) = Inr PROPAGATE
                \<and> (\<exists>pg pd. prev_gray s = Some pg \<and> prev_depth s = Some pd
                        \<and> propagate_depth_optical_flow cl pg g pd = Inr raw))
           \<and> temporal_smoothing cf raw (filtered_depth s) = Inr out
           \<and> display cl out = None
           \<and> s' = \<lparr>frame_count = frame_count s + 1, prev_gray = Some g,
                    prev_depth = Some raw, filtered_depth = Some out\<rparr>"
proof -
  from process_frame_outcomes [OF assms] obtain g raw s1 where
    g: "cvtColor (COLOR_BGR2GRAY cl) frame = Inr g"
    and st: "depth_stage cl cf s frame g = (Inr raw, s1)"
    and sm: "temporal_smoothing cf raw (filtered_depth s1) = Inr out"
    and dp: "display cl out = None"
    and s': "s' = s1\<lparr>filtered_depth := Some out, prev_gray := Some g,
                     prev_depth := Some raw, frame_count := frame_count s1 + 1\<rparr>"
    by auto
  from depth_stage_cases [OF st]
  consider (infer) "schedule cf (frame_count s) (prev_depth s) = Inr INFER"
      "estimate_depth_midas cl frame = Inr raw" "s1 = s\<lparr>prev_depth := Some raw\<rparr>"
    | (propagate) pg pd where "schedule cf (frame_count s) (prev_depth s) = Inr PROPAGATE"
      "s1 = s" "prev_gray s = Some pg" "prev_depth s = Some pd"
      "propagate_depth_optical_flow cl pg g pd = Inr raw"
    by auto
  then show ?thesis
  proof cases
    case infer
    with g sm dp s' show ?thesis by auto
  next
    case propagate
    with g sm dp s' show ?thesis by auto
  qed
qed

lemma depth_stage_state:
  assumes "depth_stage cl cf s frame g = (r, s1)"
  shows "prev_gray s1 = prev_gray s \<and> filtered_depth s1 = filtered_depth s
         \<and> frame_count s1 = frame_count s
         \<and> (isl r \<longrightarrow> s1 = s)
         \<and> (schedule cf (frame_count s) (prev_depth s) \<noteq> Inr INFER \<longrightarrow> s1 = s)"
  using depth_stage_cases [OF assms] by auto

text \<open>Concrete runs with the test collaborators.\<close>

lemmas run_defs =
  process_frame_def cvtColor_def stub_def depth_stage_def schedule_def configuration_def
  estimate_depth_midas_def COLOR_BGR2RGB_def unsqueeze1_def interpolate_def squeeze_def
  temporal_smoothing_def

lemma propagate_static_2x2:
  "propagate_depth_optical_flow stub gray_2x2 gray_2x2 depth_2x2 = Inr depth_2x2"
  by code_simp

lemma filter_fixed_point_2x2:
  "apply_temporal_filter configuration depth_2x2 depth_2x2 = Inr depth_2x2"
  by (simp add: apply_temporal_filter_same_shape well_formed_def depth_2x2_def configuration_def)

lemma gray_of_frame_2x2: "cvtColor (COLOR_BGR2GRAY stub) frame_2x2 = Inr gray_2x2"
  by (simp add: cvtColor_def stub_def frame_2x2_def gray_2x2_def)

lemma display_stub: "display stub d = None"
  by (simp add: stub_def)

lemma propagate_step_2x2:
  assumes "n mod 5 \<noteq> 0"
  shows "process_frame stub configuration
           \<lparr>frame_count = n, prev_gray = Some gray_2x2, prev_depth = Some depth_2x2,
            filtered_depth = Some depth_2x2\<rparr> frame_2x2
         = (Inr depth_2x2,
            \<lparr>frame_count = n + 1, prev_gray = Some gray_2x2, prev_depth = Some depth_2x2,
             filtered_depth = Some depth_2x2\<rparr>)"
  using assms
  by (simp add: process_frame_def gray_of_frame_2x2 depth_stage_def schedule_def
      configuration_def [THEN arg_cong [where f = FRAME_SKIP]] propagate_static_2x2
      temporal_smoothing_def filter_fixed_point_2x2 display_stub)

lemma first_frame_run:
  "process_frame stub configuration initial_state frame_2x2 = (Inr depth_2x2, state_1)"
  by (simp add: run_defs frame_2x2_def initial_state_def depth_2x2_def state_1_def
      gray_2x2_def upt_rec)

lemma state_5_reached:
  "capture_loop stub configuration initial_state (replicate 5 frame_2x2) = (None, state_5)"
  by (simp add: numeral_eq_Suc first_frame_run state_1_def propagate_step_2x2 state_5_def)

lemma mismatch_run:
  "process_frame stub configuration state_1 frame_3x3 = (Inl CvError, state_1)"
  by (simp add: run_defs frame_3x3_def state_1_def gray_2x2_def
      propagate_depth_optical_flow_def calcOpticalFlowFarneback_def)

text \<open>
  C5. After every successfully processed frame, on the INFER path and on the PROPAGATE
  path alike, the previous gray frame is the current frame's grayscale image, the
  previous depth is that frame's raw depth map (the result of inference or of
  propagation, before filtering, an expression in which the filtered depth does not
  occur), the filtered depth is the filter's output for that raw map, and the frame
  counter has grown by exactly 1.
\<close>

theorem state_update:
  assumes "process_frame cl cf s frame = (Inr out, s')"
  shows "\<exists>g raw.
           cvtColor (COLOR_BGR2GRAY cl) frame = Inr g
           \<and> (schedule cf (frame_count s) (prev_depth s) = Inr INFER
                \<and> estimate_depth_midas cl frame = Inr raw
              \<or> schedule cf (frame_count s) (prev_depth s) = Inr PROPAGATE
                \<and> (\<exists>pg pd. prev_gray s = Some pg \<and> prev_depth s = Some pd
                        \<and> propagate_depth_optical_flow cl pg g pd = Inr raw))
           \<and> temporal_smoothing cf raw (filtered_depth s) = Inr out
           \<and> prev_gray s' = Some g
           \<and> prev_depth s' = Some raw
           \<and> filtered_depth s' = Some out
           \<and> frame_count s' = frame_count s + 1"
proof -
  from process_frame_success [OF assms] obtain g raw where
    "cvtColor (COLOR_BGR2GRAY cl) frame = Inr g"
    "schedule cf (frame_count s) (prev_depth s) = Inr INFER
       \<and> estimate_depth_midas cl frame = Inr raw
     \<or> schedule cf (frame_count s) (prev_depth s) = Inr PROPAGATE
       \<and> (\<exists>pg pd. prev_gray s = Some pg \<and> prev_depth s = Some pd
               \<and> propagate_depth_optical_flow cl pg g pd = Inr raw)"
    "temporal_smoothing cf raw (filtered_depth s) = Inr out"
    "s' = \<lparr>frame_count = frame_count s + 1, prev_gray = Some g,
           prev_depth = Some raw, filtered_depth = Some out\<rparr>"
    by blast
  then show ?thesis by (intro exI [of _ g] exI [of _ raw]) simp
qed

theorem state_update_witness:
  "process_frame stub configuration initial_state frame_2x2 = (Inr depth_2x2, state_1)
   \<and> process_frame stub configuration state_1 frame_2x2
       = (Inr depth_2x2, state_1\<lparr>frame_count := 2\<rparr>)
   \<and> prev_depth state_1 = Some depth_2x2
   \<and> frame_count state_1 = frame_count initial_state + 1
   \<and> frame_count (state_1\<lparr>frame_count := 2\<rparr>) = frame_count state_1 + 1"
proof -
  have r1: "process_frame stub configuration initial_state frame_2x2 = (Inr depth_2x2, state_1)"
    by (rule first_frame_run)
  have r2: "process_frame stub configuration state_1 frame_2x2
              = (Inr depth_2x2, state_1\<lparr>frame_count := 2\<rparr>)"
    using propagate_step_2x2 [of 1] by (simp add: state_1_def)
  from state_update [OF r1] state_update [OF r2] r1 r2 show ?thesis
    by (auto simp: state_1_def)
qed

text \<open>
  C3. For every depth map \<open>d\<close>, when the stored filtered depth is undefined the temporal
  filter stage returns \<open>d\<close> itself, with no smoothing; a frame processed in such a state
  has its raw depth as its output.
\<close>

theorem first_frame_unfiltered:
  "temporal_smoothing cf d None = Inr d
   \<and> (filtered_depth s = None \<longrightarrow>
        (\<forall>out s'. process_frame cl cf s frame = (Inr out, s') \<longrightarrow>
           prev_depth s' = Some out \<and> filtered_depth s' = Some out))"
proof -
  have "prev_depth s' = Some out \<and> filtered_depth s' = Some out"
    if "filtered_depth s = None" "process_frame cl cf s frame = (Inr out, s')" for out s'
    using process_frame_success [OF that(2)] that(1) by (auto simp: temporal_smoothing_def)
  then show ?thesis by (simp add: temporal_smoothing_def)
qed

theorem first_frame_unfiltered_witness:
  "filtered_depth initial_state = None
   \<and> process_frame stub configuration initial_state frame_2x2 = (Inr depth_2x2, state_1)
   \<and> temporal_smoothing configuration depth_2x2 None = Inr depth_2x2
   \<and> prev_depth state_1 = Some depth_2x2 \<and> filtered_depth state_1 = Some depth_2x2"
proof -
  have h: "filtered_depth initial_state = None" by (simp add: initial_state_def)
  have r: "process_frame stub configuration initial_state frame_2x2 = (Inr depth_2x2, state_1)"
    by (rule first_frame_run)
  from first_frame_unfiltered [of configuration depth_2x2 initial_state stub frame_2x2] h r
  show ?thesis by blast
qed

text \<open>
  C7, as claimed: a failure of any stage leaves all four state variables unchanged.
  This fails for a frame scheduled for inference whose depth map the temporal filter
  rejects, because the inference branch has already stored the new raw depth as the
  previous depth. In \<open>state_5\<close>, reached after five 2-by-2 frames, a 3-by-3 frame is such
  a frame.
\<close>

theorem atomicity_counterexample:
  "process_frame stub configuration state_5 frame_3x3
     = (Inl ValueError, state_5\<lparr>prev_depth := Some depth_3x3\<rparr>)
   \<and> state_5\<lparr>prev_depth := Some depth_3x3\<rparr> \<noteq> state_5"
  by (simp add: run_defs frame_3x3_def state_5_def depth_2x2_def depth_3x3_def gray_2x2_def
      apply_temporal_filter_def np_binary_def np_scale_def broadcast_shapes_def upt_rec)

text \<open>
  C7, amended. If processing a frame fails, the error is the result, and
  \<^item> the previous gray frame and the frame counter keep their values;
  \<^item> the whole state is unchanged when the failure is in the grayscale conversion or
    in the depth branch, that is in scheduling, in inference or in propagation (a
    dimension mismatch on a frame scheduled for propagation, for instance);
  \<^item> the previous depth keeps its value on a frame not scheduled for inference;
  \<^item> the filtered depth keeps its value when the failure is in the temporal filter or
    before it.
\<close>

theorem failure_keeps_state:
  assumes "process_frame cl cf s frame = (Inl e, s')"
  shows "prev_gray s' = prev_gray s \<and> frame_count s' = frame_count s
         \<and> ((\<forall>g. cvtColor (COLOR_BGR2GRAY cl) frame = Inr g \<longrightarrow>
                  isl (fst (depth_stage cl cf s frame g))) \<longrightarrow> s' = s)
         \<and> (schedule cf (frame_count s) (prev_depth s) \<noteq> Inr INFER \<longrightarrow>
               prev_depth s' = prev_depth s)
         \<and> ((\<forall>g raw s1. cvtColor (COLOR_BGR2GRAY cl) frame = Inr g
                    \<and> depth_stage cl cf s frame g = (Inr raw, s1) \<longrightarrow>
                  isl (temporal_smoothing cf raw (filtered_depth s1))) \<longrightarrow>
               filtered_depth s' = filtered_depth s)"
proof -
  from process_frame_outcomes [OF assms]
  consider (gray) "s' = s"
    | (depth) g where "cvtColor (COLOR_BGR2GRAY cl) frame = Inr g"
        "depth_stage cl cf s frame g = (Inl e, s')"
    | (filter) g raw where "cvtColor (COLOR_BGR2GRAY cl) frame = Inr g"
        "depth_stage cl cf s frame g = (Inr raw, s')"
    | (display) g raw s1 f where "cvtColor (COLOR_BGR2GRAY cl) frame = Inr g"
        "depth_stage cl cf s frame g = (Inr raw, s1)"
        "temporal_smoothing cf raw (filtered_depth s1) = Inr f"
        "s' = s1\<lparr>filtered_depth := Some f\<rparr>"
    by auto
  then show ?thesis
  proof cases
    case gray
    then show ?thesis by simp
  next
    case depth
    with depth_stage_state [OF depth(2)] show ?thesis by simp
  next
    case filter
    with depth_stage_state [OF filter(2)] show ?thesis by auto
  next
    case display
    with depth_stage_state [OF display(2)] show ?thesis by auto
  qed
qed

theorem failure_keeps_state_witness:
  "process_frame stub configuration state_1 frame_3x3 = (Inl CvError, state_1)
   \<and> cvtColor (COLOR_BGR2GRAY stub) frame_3x3 = Inr gray_3x3
   \<and> depth_stage stub configuration state_1 frame_3x3 gray_3x3 = (Inl CvError, state_1)
   \<and> schedule configuration (frame_count state_1) (prev_depth state_1) = Inr PROPAGATE"
proof -
  have r: "process_frame stub configuration state_1 frame_3x3 = (Inl CvError, state_1)"
    by (rule mismatch_run)
  have g: "cvtColor (COLOR_BGR2GRAY stub) frame_3x3 = Inr gray_3x3"
    by (simp add: cvtColor_def stub_def frame_3x3_def gray_3x3_def)
  have d: "depth_stage stub configuration state_1 frame_3x3 gray_3x3 = (Inl CvError, state_1)"
    by (simp add: depth_stage_def schedule_def configuration_def state_1_def gray_2x2_def
        gray_3x3_def propagate_depth_optical_flow_def calcOpticalFlowFarneback_def)
  have s: "schedule configuration (frame_count state_1) (prev_depth state_1) = Inr PROPAGATE"
    by (simp add: schedule_def configuration_def state_1_def)
  from failure_keeps_state [OF r] r g d s show ?thesis by blast
qed

subsection \<open>Dimensions of the result\<close>

text \<open>
  The inference path returns the frame's height and width with every extent 1 removed;
  the propagation path returns the dimensions of the current gray frame; the temporal
  filter keeps the dimensions of a raw map that agrees with the stored filtered map.
\<close>

lemma estimate_depth_midas_shape:
  assumes "estimate_depth_midas cl frame = Inr d" "shape frame = [h, w]"
    and "\<And>img p. midas cl img = Inr p \<Longrightarrow> \<exists>hp wp. shape p = [1, hp, wp]"
  shows "shape d = filter (\<lambda>k. k \<noteq> 1) [h, w]"
proof -
  from assms(1,2) obtain img where img: "cvtColor COLOR_BGR2RGB frame = Inr img"
    and sh: "shape img = [h, w]"
    by (auto simp: estimate_depth_midas_def cvtColor_def split: sum.splits if_splits)
  from assms(1) img obtain p where p: "midas cl img = Inr p"
    by (auto simp: estimate_depth_midas_def split: sum.splits)
  from assms(3) [OF p] obtain hp wp where shp: "shape p = [1, hp, wp]" by blast
  then have u: "unsqueeze1 p = Inr \<lparr>shape = [1, 1, hp, wp], data = data p\<rparr>"
    by (simp add: unsqueeze1_def)
  from assms(1) img p u sh obtain r where
    r: "interpolate (bicubic cl) \<lparr>shape = [1, 1, hp, wp], data = data p\<rparr> [h, w] = Inr r"
    and d: "d = squeeze r"
    by (auto simp: estimate_depth_midas_def split: sum.splits)
  from r have "shape r = [1, 1, h, w]"
    by (auto simp: interpolate_def split: if_splits)
  with d show ?thesis by (simp add: squeeze_def)
qed

lemma remap_shape:
  assumes "remap src mx my = Inr d"
  shows "shape d = shape mx"
proof -
  from assms obtain rows cols where "shape src = [rows, cols]"
    by (auto simp: remap_def split: list.splits)
  moreover from assms this obtain h w where "shape mx = [h, w]"
    by (auto simp: remap_def split: list.splits)
  ultimately show ?thesis
    using assms by (auto simp: remap_def split: if_splits)
qed

lemma farneback_result:
  assumes "calcOpticalFlowFarneback solver pg g = Inr flw"
  shows "shape flw = shape g \<and> well_formed flw \<and> (\<exists>h w. shape g = [h, w])"
proof -
  from assms obtain h w where "shape pg = [h, w]"
    by (auto simp: calcOpticalFlowFarneback_def split: list.splits)
  with assms show ?thesis
    by (auto simp: calcOpticalFlowFarneback_def well_formed_def split: if_splits)
qed

lemma warp_depth_shape:
  assumes "warp_depth flw pd = Inr d" "shape flw = [h, w]" "well_formed flw"
  shows "shape d = [h, w]"
proof -
  obtain X Y where XY: "meshgrid_xy (arange w) (arange h) = (X, Y)"
    by (cases "meshgrid_xy (arange w) (arange h)")
  let ?rx = "\<lparr>shape = [h, w],
              data = map (\<lambda>i. real (i mod w) + fst (data flw ! i)) [0..<h * w]\<rparr>"
  let ?ry = "\<lparr>shape = [h, w],
              data = map (\<lambda>i. real (i div w) + snd (data flw ! i)) [0..<h * w]\<rparr>"
  have "np_binary (\<lambda>m f. real m + f) X (component fst flw) = Inr ?rx"
    and "np_binary (\<lambda>m f. real m + f) Y (component snd flw) = Inr ?ry"
    using remap_coordinates [OF assms(2,3)] by (simp_all add: XY)
  with assms(1) have "remap pd ?rx ?ry = Inr d"
    by (simp add: warp_depth_def assms(2) XY)
  from remap_shape [OF this] show ?thesis by simp
qed

lemma propagate_shape:
  assumes "propagate_depth_optical_flow cl pg g pd = Inr d"
  shows "shape d = shape g"
proof -
  from assms obtain flw where flw: "calcOpticalFlowFarneback (farneback cl) pg g = Inr flw"
    and wd: "warp_depth flw pd = Inr d"
    by (auto simp: propagate_depth_optical_flow_def split: sum.splits)
  from farneback_result [OF flw] obtain h w where
    "shape flw = [h, w]" "well_formed flw" "shape g = [h, w]" by auto
  with warp_depth_shape [OF wd] show ?thesis by simp
qed

lemma temporal_smoothing_shape:
  assumes "temporal_smoothing cf raw fd = Inr out"
    and "\<And>f. fd = Some f \<Longrightarrow> shape f = shape raw"
  shows "shape out = shape raw"
proof (cases fd)
  case None
  with assms(1) show ?thesis by (simp add: temporal_smoothing_def)
next
  case (Some f)
  with assms(1) have "np_binary (+) (np_scale (TEMPORAL_ALPHA cf) f)
                        (np_scale (1 - TEMPORAL_ALPHA cf) raw) = Inr out"
    by (simp add: temporal_smoothing_def apply_temporal_filter_def)
  moreover have "shape (np_scale (TEMPORAL_ALPHA cf) f)
                 = shape (np_scale (1 - TEMPORAL_ALPHA cf) raw)"
    using assms(2) [OF Some] by (simp add: np_scale_def)
  ultimately have "shape out = shape (np_scale (1 - TEMPORAL_ALPHA cf) raw)"
    by (rule np_binary_shape)
  then show ?thesis by (simp add: np_scale_def)
qed

text \<open>
  So the result has the frame's dimensions when the network answers with a batch of one
  map, the stored filtered depth (if any) has the frame's dimensions, and a frame that
  is scheduled for inference has neither height 1 nor width 1.
\<close>

text \<open>
  So the result has the frame's dimensions when the network answers with a batch of one
  map, the stored filtered depth (if any) has the frame's dimensions, and a frame that
  is scheduled for inference has neither height 1 nor width 1.
\<close>

lemma process_frame_dimensions:
  assumes "process_frame cl cf s frame = (Inr out, s')" "shape frame = [h, w]"
    and "\<And>img p. midas cl img = Inr p \<Longrightarrow> \<exists>hp wp. shape p = [1, hp, wp]"
    and "\<And>f. filtered_depth s = Some f \<Longrightarrow> shape f = [h, w]"
    and "schedule cf (frame_count s) (prev_depth s) = Inr INFER \<Longrightarrow> h \<noteq> 1 \<and> w \<noteq> 1"
  shows "shape out = [h, w]"
proof -
  from process_frame_success [OF assms(1)] obtain g raw where
    g: "cvtColor (COLOR_BGR2GRAY cl) frame = Inr g"
    and raw: "schedule cf (frame_count s) (prev_depth s) = Inr INFER
                \<and> estimate_depth_midas cl frame = Inr raw
              \<or> schedule cf (frame_count s) (prev_depth s) = Inr PROPAGATE
                \<and> (\<exists>pg pd. propagate_depth_optical_flow cl pg g pd = Inr raw)"
    and sm: "temporal_smoothing cf raw (filtered_depth s) = Inr out"
    by blast
  from g assms(2) have shg: "shape g = [h, w]"
    by (auto simp: cvtColor_def split: if_splits)
  from raw have "shape raw = [h, w]"
  proof
    assume a: "schedule cf (frame_count s) (prev_depth s) = Inr INFER
                \<and> estimate_depth_midas cl frame = Inr raw"
    with assms(5) have "h \<noteq> 1" "w \<noteq> 1" by simp_all
    have "shape raw = filter (\<lambda>k. k \<noteq> 1) [h, w]"
    proof (rule estimate_depth_midas_shape)
      show "estimate_depth_midas cl frame = Inr raw" using a by simp
      show "shape frame = [h, w]" by fact
      show "\<exists>hp wp. shape p = [1, hp, wp]" if "midas cl img = Inr p" for img p
        using assms(3) [OF that] .
    qed
    with \<open>h \<noteq> 1\<close> \<open>w \<noteq> 1\<close> show ?thesis by simp
  next
    assume "schedule cf (frame_count s) (prev_depth s) = Inr PROPAGATE
                \<and> (\<exists>pg pd. propagate_depth_optical_flow cl pg g pd = Inr raw)"
    with propagate_shape shg show ?thesis by auto
  qed
  with temporal_smoothing_shape [OF sm] assms(4) show ?thesis by simp
qed

text \<open>
  C6. The depth map returned for a frame has the frame's height and width, on the
  inference path and on the propagation path. On the inference path this fails for a
  frame of height 1 (or width 1): \<^verbatim>\<open>.squeeze()\<close> removes that axis from the map that
  \<open>interpolate\<close> had resized to the frame's dimensions. The first frame of a stream,
  1 pixel high and 2 pixels wide, gets a one-dimensional map of 2 elements.
\<close>

theorem squeeze_drops_unit_axis:
  "process_frame stub configuration initial_state frame_1x2
     = (Inr \<lparr>shape = [2], data = [0, 1]\<rparr>, state_1x2)
   \<and> shape frame_1x2 = [1, 2]"
  by (simp add: run_defs frame_1x2_def initial_state_def state_1x2_def upt_rec)

end
